theory Spec2Isabelle
  imports Complex_Main
begin

section \<open>Customer profile and cart consistency engine\<close>

text \<open>
  A shallow embedding of the profile managers of the storefront script
  (\<^verbatim>\<open>BaseProfileManager\<close>, \<^verbatim>\<open>FirebaseProfileManager\<close>, \<^verbatim>\<open>OfflineProfileManager\<close>).

  Conventions of the embedding.
  \<^item> A JavaScript number is a value of a type \<open>'n\<close> that has the constants \<open>0\<close> and
    \<open>1\<close>, the operations \<open>+\<close> and \<open>*\<close> and the comparison \<open>\<le>\<close>. Nothing is assumed
    about them: the sum of two numbers is whatever the machine's addition returns
    (rounded, infinite or not-a-number as it may be), and no law of arithmetic is used
    unless a statement names it. The length of an array is a natural number. The
    concrete inputs take the rationals, with their exact arithmetic, for \<open>'n\<close>.
  \<^item> A JSON value of free shape (\<^verbatim>\<open>data\<close>, \<^verbatim>\<open>product_data\<close>, \<^verbatim>\<open>orderData\<close>,
    \<^verbatim>\<open>personal_info\<close>, \<^verbatim>\<open>preferences\<close>) is a \<open>jsval\<close>; an object of free shape is
    an association list in insertion order.
  \<^item> Everything a call reads from the browser or from a collaborator is a field of
    the record \<open>env\<close>: the clock, the page, the product catalog (the global
    \<^verbatim>\<open>products\<close>), and the outcome of each external call (account creation, remote
    reads and writes, \<^verbatim>\<open>localStorage.setItem\<close>). All clock reads of one call return
    the same instant \<open>now\<close>.
  \<^item> The mutable world is the record \<open>state\<close>: \<^verbatim>\<open>this.currentProfile\<close>,
    \<^verbatim>\<open>this.batchUpdateScheduled\<close>, the Local Cache (\<^verbatim>\<open>localStorage\<close>), the session
    identifier kept in \<^verbatim>\<open>sessionStorage\<close>, and the list of writes that the Remote
    Profile Store has accepted, in order. The manager is constructed with a
    database handle, so \<^verbatim>\<open>this.db\<close> is never null here.
  \<^item> \<^verbatim>\<open>batchUpdateProfile\<close> is modelled up to the point where it returns: it raises
    the flag and arms the timer. The timer's callback runs later from the event
    loop and belongs to no call modelled here.
  \<^item> A call that throws returns \<open>Inl\<close> of the error together with the state it
    leaves behind.
  \<^item> A profile's \<^verbatim>\<open>type\<close> is one of the two values the code compares it with, and
    a product identifier is a string.
\<close>

subsection \<open>The data model\<close>

type_synonym timestamp = string

datatype 'n jsval =
    JNull
  | JBool bool
  | JNum 'n
  | JLength nat
  | JStr string
  | JArr "'n jsval list"
  | JObj "(string \<times> 'n jsval) list"

type_synonym 'n jsobject = "(string \<times> 'n jsval) list"

datatype profile_type = guest | registered

record 'n cart_line =
  item_product_id :: string
  item_quantity :: 'n
  item_added_at :: timestamp
  item_updated_at :: timestamp

record 'n shopping_cart =
  cart_items :: "'n cart_line list"
  cart_total :: 'n
  cart_updated_at :: "timestamp option"

record 'n abandoned_cart =
  ab_items :: "'n cart_line list"
  ab_total :: 'n
  ab_updated_at :: "timestamp option"
  abandoned_at :: timestamp

record 'n wishlist_entry =
  wish_product_id :: string
  wish_product_data :: "'n jsval"
  wish_added_at :: timestamp

record 'n shopping_data =
  cart :: "'n shopping_cart"
  wishlist :: "'n wishlist_entry list"
  purchase_history :: "'n jsobject list"
  abandoned_carts :: "'n abandoned_cart list"

record 'n page_view =
  pv_page :: string
  pv_data :: "'n jsval"
  pv_timestamp :: timestamp
  pv_url :: string

record 'n product_view =
  prv_product_id :: string
  prv_product_data :: "'n jsval"
  prv_timestamp :: timestamp

record 'n browsing_data =
  page_views :: "'n page_view list"
  product_views :: "'n product_view list"
  categories_visited :: "'n jsval list"
  search_queries :: "'n jsval list"
  time_spent :: 'n
  last_active :: timestamp

record 'n analytics_event =
  ev_action :: string
  ev_data :: "'n jsval"
  ev_timestamp :: timestamp
  ev_page_url :: string
  ev_user_agent :: string

record 'n analytics_data =
  events :: "'n analytics_event list"
  filters_used :: "'n jsval list"
  actions_taken :: "'n jsval list"

record 'n profile_metadata =
  md_user_agent :: string
  md_screen_resolution :: string
  md_timezone :: string
  md_language :: string
  md_referrer :: string
  md_first_visit :: timestamp
  visit_count :: 'n

record conversion_record =
  original_guest_id :: string
  converted_at :: timestamp
  guest_session_id :: string

record 'n profile =
  profile_id :: string
  profile_type :: profile_type
  created_at :: timestamp
  updated_at :: timestamp
  session_id :: string
  personal_info :: "'n jsobject"
  shopping :: "'n shopping_data"
  browsing :: "'n browsing_data"
  analytics :: "'n analytics_data"
  preferences :: "'n jsobject"
  metadata :: "'n profile_metadata"
  converted_from_guest :: "conversion_record option"

text \<open>A catalog entry: only \<^verbatim>\<open>id\<close> and \<^verbatim>\<open>price\<close> are read by the profile managers.\<close>

record 'n product =
  product_ident :: string
  price :: 'n

subsection \<open>Collaborators and the world\<close>

datatype error =
    NoGuestProfile
  | AuthError string
  | RemoteError
  | StorageError
  | ParseError

record auth_user =
  uid :: string
  email :: string
  displayName :: "string option"

text \<open>The argument of \<^verbatim>\<open>convertGuestToRegistered\<close>; \<open>None\<close> is an absent field.\<close>

record user_info =
  ui_email :: string
  ui_name :: "string option"
  ui_phone :: "string option"
  ui_marketing_emails :: "bool option"

text \<open>The argument of \<^verbatim>\<open>updateProfile\<close>.\<close>

record 'n profile_updates =
  upd_personal_info :: "'n jsobject option"
  upd_preferences :: "'n jsobject option"

text \<open>
  A Local Cache entry under a guest key: the JSON text of a profile (what the
  managers write there), the text \<^verbatim>\<open>null\<close>, or text that \<^verbatim>\<open>JSON.parse\<close> rejects. Text that
  parses to any other value that is not a profile is outside the model: as the
  current profile it would be a value without the fields the methods read.
\<close>

datatype 'n cached = Json "'n profile" | JsonNull | Corrupt

text \<open>A write accepted by the Remote Profile Store (collection \<^verbatim>\<open>user_profiles\<close>).\<close>

datatype 'n remote_write =
    DocSet string "'n profile"
  | DocSetMerge string "'n profile"
  | DocUpdate string "'n profile"
  | DocUpdateFields string "'n jsobject" "'n jsobject" timestamp
  | DocTouch string timestamp
  | DocDelete string

record 'n env =
  now :: timestamp
  date_now :: string
  random_token :: string
  page_url :: string
  user_agent :: string
  screen_resolution :: string
  timezone :: string
  language :: string
  referrer :: string
  products :: "'n product list option"
  auth_create :: "error + auth_user"
  display_name_ok :: bool
  remote_get :: "string \<Rightarrow> error + 'n profile option"
  remote_set_ok :: bool
  remote_update_ok :: bool
  remote_delete_ok :: bool
  local_set_ok :: bool

record 'n state =
  currentProfile :: "'n profile option"
  batchUpdateScheduled :: bool
  remote_writes :: "'n remote_write list"
  localStorage :: "string \<rightharpoonup> 'n cached"
  sessionStorage :: "string option"

subsection \<open>JavaScript helpers\<close>

text \<open>\<^verbatim>\<open>xs.slice(-n)\<close>: the last \<open>n\<close> elements, all of them when there are fewer.\<close>

definition slice_last :: "nat \<Rightarrow> 'a list \<Rightarrow> 'a list" where
  "slice_last n xs = drop (length xs - n) xs"

text \<open>\<^verbatim>\<open>obj[k] = v\<close> on an object in insertion order.\<close>

definition set_key ::
    "string \<Rightarrow> 'n::{zero,one,plus,times,ord} jsval \<Rightarrow> 'n jsobject \<Rightarrow> 'n jsobject" where
  "set_key k v obj =
     (if k \<in> set (map fst obj)
      then map (\<lambda>kv. if fst kv = k then (k, v) else kv) obj
      else obj @ [(k, v)])"

text \<open>\<^verbatim>\<open>Object.assign(target, src)\<close>, also the spread \<^verbatim>\<open>{...target, ...src}\<close>.\<close>

definition assign ::
    "'n::{zero,one,plus,times,ord} jsobject \<Rightarrow> 'n jsobject \<Rightarrow> 'n jsobject" where
  "assign target src = foldl (\<lambda>obj kv. set_key (fst kv) (snd kv) obj) target src"

text \<open>Mutating, in place, the object that \<^verbatim>\<open>xs.find(P)\<close> returned: the first match.\<close>

fun update_first ::
    "('a \<Rightarrow> bool) \<Rightarrow> ('a \<Rightarrow> 'a) \<Rightarrow> 'a list \<Rightarrow> 'a list" where
  "update_first P f [] = []"
| "update_first P f (x # xs) = (if P x then f x # xs else x # update_first P f xs)"

abbreviation cart_of :: "'n::{zero,one,plus,times,ord} profile \<Rightarrow> 'n shopping_cart" where
  "cart_of p \<equiv> cart (shopping p)"

abbreviation set_cart ::
    "'n::{zero,one,plus,times,ord} shopping_cart \<Rightarrow> 'n profile \<Rightarrow> 'n profile" where
  "set_cart c p \<equiv> p\<lparr>shopping := (shopping p)\<lparr>cart := c\<rparr>\<rparr>"

abbreviation set_cart_items ::
    "'n::{zero,one,plus,times,ord} cart_line list \<Rightarrow> 'n profile \<Rightarrow> 'n profile" where
  "set_cart_items xs p \<equiv> set_cart ((cart_of p)\<lparr>cart_items := xs\<rparr>) p"

subsection \<open>BaseProfileManager\<close>

definition guest_profile_key :: "string \<Rightarrow> string" where
  "guest_profile_key sessionId = ''guest_profile_'' @ sessionId"

definition generateSessionId ::
    "'n::{zero,one,plus,times,ord} env \<Rightarrow> 'n state \<Rightarrow> string \<times> 'n state" where
  "generateSessionId e s =
     (case sessionStorage s of
        Some sessionId \<Rightarrow>
          if sessionId \<noteq> [] then (sessionId, s)
          else (let fresh = ''session_'' @ date_now e @ ''_'' @ random_token e
                in (fresh, s\<lparr>sessionStorage := Some fresh\<rparr>))
      | None \<Rightarrow>
          (let fresh = ''session_'' @ date_now e @ ''_'' @ random_token e
           in (fresh, s\<lparr>sessionStorage := Some fresh\<rparr>)))"

definition createBaseProfile ::
    "'n::{zero,one,plus,times,ord} env \<Rightarrow> string \<Rightarrow> profile_type \<Rightarrow> 'n state \<Rightarrow> 'n profile \<times> 'n state" where
  "createBaseProfile e profileId profileType s =
     (let (sessionId, s') = generateSessionId e s in
      (\<lparr>profile_id = profileId,
        profile_type = profileType,
        created_at = now e,
        updated_at = now e,
        session_id = sessionId,
        personal_info =
          [(''email'', JNull), (''name'', JNull), (''phone'', JNull), (''addresses'', JArr [])],
        shopping =
          \<lparr>cart = \<lparr>cart_items = [], cart_total = 0, cart_updated_at = None\<rparr>,
           wishlist = [],
           purchase_history = [],
           abandoned_carts = []\<rparr>,
        browsing =
          \<lparr>page_views = [],
           product_views = [],
           categories_visited = [],
           search_queries = [],
           time_spent = 0,
           last_active = now e\<rparr>,
        analytics = \<lparr>events = [], filters_used = [], actions_taken = []\<rparr>,
        preferences =
          [(''currency'', JStr ''USD''), (''notifications'', JBool True),
           (''marketing_emails'', JBool False), (''size_preferences'', JObj []),
           (''favorite_categories'', JArr [])],
        metadata =
          \<lparr>md_user_agent = user_agent e,
           md_screen_resolution = screen_resolution e,
           md_timezone = timezone e,
           md_language = language e,
           md_referrer = (if referrer e \<noteq> [] then referrer e else ''direct''),
           md_first_visit = now e,
           visit_count = 1\<rparr>,
        converted_from_guest = None\<rparr>, s'))"

subsection \<open>FirebaseProfileManager: mutations of the current profile\<close>

definition batchUpdateProfile :: "'n::{zero,one,plus,times,ord} state \<Rightarrow> 'n state" where
  "batchUpdateProfile s =
     (if batchUpdateScheduled s then s else s\<lparr>batchUpdateScheduled := True\<rparr>)"

text \<open>
  The loop of \<^verbatim>\<open>updateCartTotal\<close>: \<^verbatim>\<open>total\<close> starts at 0 and every line whose product
  is found in the catalog adds \<^verbatim>\<open>product.price * item.quantity\<close>.
\<close>

definition cart_sum ::
    "'n::{zero,one,plus,times,ord} product list \<Rightarrow> 'n cart_line list \<Rightarrow> 'n" where
  "cart_sum ps xs =
     foldl (\<lambda>total item.
              case find (\<lambda>p. product_ident p = item_product_id item) ps of
                Some product \<Rightarrow> total + price product * item_quantity item
              | None \<Rightarrow> total) 0 xs"

definition updateCartTotal ::
    "'n::{zero,one,plus,times,ord} env \<Rightarrow> 'n state \<Rightarrow> 'n state" where
  "updateCartTotal e s =
     (case currentProfile s of
        None \<Rightarrow> s
      | Some p \<Rightarrow>
          (case products e of
             None \<Rightarrow> s
           | Some ps \<Rightarrow>
               s\<lparr>currentProfile :=
                    Some (set_cart ((cart_of p)\<lparr>cart_total := cart_sum ps (cart_items (cart_of p)),
                                               cart_updated_at := Some (now e)\<rparr>) p)\<rparr>))"

definition addToCart ::
    "'n::{zero,one,plus,times,ord} env \<Rightarrow> string \<Rightarrow> 'n \<Rightarrow> 'n state \<Rightarrow> 'n state" where
  "addToCart e productId quantity s =
     (case currentProfile s of
        None \<Rightarrow> s
      | Some p \<Rightarrow>
          (let xs = cart_items (cart_of p);
               xs' = (case find (\<lambda>item. item_product_id item = productId) xs of
                        Some existingItem \<Rightarrow>
                          update_first (\<lambda>item. item_product_id item = productId)
                            (\<lambda>item. item\<lparr>item_quantity := item_quantity item + quantity,
                                          item_updated_at := now e\<rparr>) xs
                      | None \<Rightarrow>
                          xs @ [\<lparr>item_product_id = productId,
                                 item_quantity = quantity,
                                 item_added_at = now e,
                                 item_updated_at = now e\<rparr>])
           in batchUpdateProfile
                (updateCartTotal e (s\<lparr>currentProfile := Some (set_cart_items xs' p)\<rparr>))))"

definition removeFromCart ::
    "'n::{zero,one,plus,times,ord} env \<Rightarrow> string \<Rightarrow> 'n state \<Rightarrow> 'n state" where
  "removeFromCart e productId s =
     (case currentProfile s of
        None \<Rightarrow> s
      | Some p \<Rightarrow>
          (let xs' = filter (\<lambda>item. item_product_id item \<noteq> productId) (cart_items (cart_of p))
           in batchUpdateProfile
                (updateCartTotal e (s\<lparr>currentProfile := Some (set_cart_items xs' p)\<rparr>))))"

definition updateCartQuantity ::
    "'n::{zero,one,plus,times,ord} env \<Rightarrow> string \<Rightarrow> 'n \<Rightarrow> 'n state \<Rightarrow> 'n state" where
  "updateCartQuantity e productId quantity s =
     (case currentProfile s of
        None \<Rightarrow> s
      | Some p \<Rightarrow>
          (case find (\<lambda>item. item_product_id item = productId) (cart_items (cart_of p)) of
             None \<Rightarrow> s
           | Some item \<Rightarrow>
               if quantity \<le> 0 then removeFromCart e productId s
               else
                 (let xs' = update_first (\<lambda>item. item_product_id item = productId)
                              (\<lambda>item. item\<lparr>item_quantity := quantity,
                                            item_updated_at := now e\<rparr>)
                              (cart_items (cart_of p))
                  in batchUpdateProfile
                       (updateCartTotal e (s\<lparr>currentProfile := Some (set_cart_items xs' p)\<rparr>)))))"

definition clearCart ::
    "'n::{zero,one,plus,times,ord} env \<Rightarrow> 'n state \<Rightarrow> 'n state" where
  "clearCart e s =
     (case currentProfile s of
        None \<Rightarrow> s
      | Some p \<Rightarrow>
          (let c = cart_of p;
               ab = abandoned_carts (shopping p);
               ab' = (if length (cart_items c) > 0
                      then (let pushed = ab @ [\<lparr>ab_items = cart_items c,
                                                 ab_total = cart_total c,
                                                 ab_updated_at = cart_updated_at c,
                                                 abandoned_at = now e\<rparr>]
                            in if length pushed > 10 then slice_last 10 pushed else pushed)
                      else ab);
               p' = p\<lparr>shopping := (shopping p)
                        \<lparr>abandoned_carts := ab',
                         cart := \<lparr>cart_items = [], cart_total = 0,
                                  cart_updated_at = Some (now e)\<rparr>\<rparr>\<rparr>
           in batchUpdateProfile (s\<lparr>currentProfile := Some p'\<rparr>)))"

definition updateProfile ::
    "'n::{zero,one,plus,times,ord} env \<Rightarrow> 'n profile_updates \<Rightarrow> 'n state \<Rightarrow> (error + 'n profile option) \<times> 'n state" where
  "updateProfile e updates s =
     (case currentProfile s of
        None \<Rightarrow> (Inr None, s)
      | Some p \<Rightarrow>
          (let p' = p\<lparr>personal_info :=
                        assign (personal_info p)
                          (case upd_personal_info updates of Some u \<Rightarrow> u | None \<Rightarrow> []),
                      preferences :=
                        assign (preferences p)
                          (case upd_preferences updates of Some u \<Rightarrow> u | None \<Rightarrow> []),
                      updated_at := now e\<rparr>;
               s1 = s\<lparr>currentProfile := Some p'\<rparr>
           in if \<not> remote_update_ok e then (Inl RemoteError, s1)
              else
                (let s2 = s1\<lparr>remote_writes := remote_writes s1 @
                              [DocUpdateFields (profile_id p') (personal_info p')
                                 (preferences p') (updated_at p')]\<rparr>
                 in if profile_type p' = guest
                    then (let (sessionId, s3) = generateSessionId e s2
                          in if local_set_ok e
                             then (Inr (Some p'),
                                   s3\<lparr>localStorage :=
                                        (localStorage s3)(guest_profile_key sessionId \<mapsto> Json p')\<rparr>)
                             else (Inl StorageError, s3))
                    else (Inr (Some p'), s2))))"

definition trackAction ::
    "'n::{zero,one,plus,times,ord} env \<Rightarrow> string \<Rightarrow> 'n jsval \<Rightarrow> 'n state \<Rightarrow> 'n state" where
  "trackAction e action data s =
     (case currentProfile s of
        None \<Rightarrow> s
      | Some p \<Rightarrow>
          (let event = \<lparr>ev_action = action, ev_data = data, ev_timestamp = now e,
                        ev_page_url = page_url e, ev_user_agent = user_agent e\<rparr>;
               pushed = events (analytics p) @ [event];
               kept = (if length pushed > 1000 then slice_last 1000 pushed else pushed);
               p' = p\<lparr>analytics := (analytics p)\<lparr>events := kept\<rparr>,
                      browsing := (browsing p)\<lparr>last_active := now e\<rparr>,
                      updated_at := now e\<rparr>
           in batchUpdateProfile (s\<lparr>currentProfile := Some p'\<rparr>)))"

definition trackPageView ::
    "'n::{zero,one,plus,times,ord} env \<Rightarrow> string \<Rightarrow> 'n jsval \<Rightarrow> 'n state \<Rightarrow> 'n state" where
  "trackPageView e pageName data s =
     (case currentProfile s of
        None \<Rightarrow> s
      | Some p \<Rightarrow>
          (let pageView = \<lparr>pv_page = pageName, pv_data = data, pv_timestamp = now e,
                           pv_url = page_url e\<rparr>;
               pushed = page_views (browsing p) @ [pageView];
               kept = (if length pushed > 500 then slice_last 500 pushed else pushed);
               p' = p\<lparr>browsing := (browsing p)\<lparr>page_views := kept, last_active := now e\<rparr>\<rparr>
           in batchUpdateProfile (s\<lparr>currentProfile := Some p'\<rparr>)))"

definition trackProductView ::
    "'n::{zero,one,plus,times,ord} env \<Rightarrow> string \<Rightarrow> 'n jsval \<Rightarrow> 'n state \<Rightarrow> 'n state" where
  "trackProductView e productId productData s =
     (case currentProfile s of
        None \<Rightarrow> s
      | Some p \<Rightarrow>
          (let productView = \<lparr>prv_product_id = productId, prv_product_data = productData,
                              prv_timestamp = now e\<rparr>;
               pushed = product_views (browsing p) @ [productView];
               kept = (if length pushed > 100 then slice_last 100 pushed else pushed);
               p' = p\<lparr>browsing := (browsing p)\<lparr>product_views := kept\<rparr>\<rparr>
           in batchUpdateProfile (s\<lparr>currentProfile := Some p'\<rparr>)))"

definition addToWishlist ::
    "'n::{zero,one,plus,times,ord} env \<Rightarrow> string \<Rightarrow> 'n jsval \<Rightarrow> 'n state \<Rightarrow> 'n state" where
  "addToWishlist e productId productData s =
     (case currentProfile s of
        None \<Rightarrow> s
      | Some p \<Rightarrow>
          (case find (\<lambda>item. wish_product_id item = productId) (wishlist (shopping p)) of
             Some existingItem \<Rightarrow> s
           | None \<Rightarrow>
               (let p' = p\<lparr>shopping := (shopping p)
                             \<lparr>wishlist := wishlist (shopping p) @
                                [\<lparr>wish_product_id = productId,
                                  wish_product_data = productData,
                                  wish_added_at = now e\<rparr>]\<rparr>\<rparr>
                in batchUpdateProfile (s\<lparr>currentProfile := Some p'\<rparr>))))"

definition removeFromWishlist ::
    "'n::{zero,one,plus,times,ord} env \<Rightarrow> string \<Rightarrow> 'n state \<Rightarrow> 'n state" where
  "removeFromWishlist e productId s =
     (case currentProfile s of
        None \<Rightarrow> s
      | Some p \<Rightarrow>
          (let p' = p\<lparr>shopping := (shopping p)
                        \<lparr>wishlist := filter (\<lambda>item. wish_product_id item \<noteq> productId)
                                       (wishlist (shopping p))\<rparr>\<rparr>
           in batchUpdateProfile (s\<lparr>currentProfile := Some p'\<rparr>)))"

definition addPurchase ::
    "'n::{zero,one,plus,times,ord} env \<Rightarrow> 'n jsobject \<Rightarrow> 'n state \<Rightarrow> 'n state" where
  "addPurchase e orderData s =
     (case currentProfile s of
        None \<Rightarrow> s
      | Some p \<Rightarrow>
          (let purchase = set_key ''purchased_at'' (JStr (now e)) orderData;
               p' = p\<lparr>shopping := (shopping p)
                        \<lparr>purchase_history := purchase_history (shopping p) @ [purchase]\<rparr>\<rparr>
           in batchUpdateProfile (clearCart e (s\<lparr>currentProfile := Some p'\<rparr>))))"

subsection \<open>FirebaseProfileManager: loading, merging and converting\<close>




text \<open>
  \<^verbatim>\<open>mergeGuestData\<close> mutates the registered profile it is given; the model returns
  the mutated profile. The whole body is inside a \<^verbatim>\<open>try\<close> whose handler only logs:
  text that does not parse, and the text \<^verbatim>\<open>null\<close> (whose \<^verbatim>\<open>shopping\<close> cannot be read),
  leave the profile and the cache as they were.
\<close>

definition mergeGuestData ::
    "'n::{zero,one,plus,times,ord} env \<Rightarrow> 'n profile \<Rightarrow> 'n state \<Rightarrow> 'n profile \<times> 'n state" where
  "mergeGuestData e registeredProfile s =
     (let (sessionId, s1) = generateSessionId e s;
          guestProfileKey = guest_profile_key sessionId
      in case localStorage s1 guestProfileKey of
           None \<Rightarrow> (registeredProfile, s1)
         | Some Corrupt \<Rightarrow> (registeredProfile, s1)
         | Some JsonNull \<Rightarrow> (registeredProfile, s1)
         | Some (Json guestProfile) \<Rightarrow>
             (let r1 = (if length (cart_items (cart_of guestProfile)) > 0
                        then set_cart (cart_of guestProfile) registeredProfile
                        else registeredProfile);
                  r2 = (if length (wishlist (shopping guestProfile)) > 0
                        then r1\<lparr>shopping := (shopping r1)
                                 \<lparr>wishlist := wishlist (shopping r1) @
                                    filter (\<lambda>item.
                                              find (\<lambda>existing. wish_product_id existing = wish_product_id item)
                                                (wishlist (shopping r1)) = None)
                                      (wishlist (shopping guestProfile))\<rparr>\<rparr>
                        else r1);
                  r3 = r2\<lparr>browsing := (browsing r2)
                           \<lparr>page_views := page_views (browsing r2) @ page_views (browsing guestProfile),
                            product_views :=
                              product_views (browsing r2) @ product_views (browsing guestProfile)\<rparr>\<rparr>;
                  r4 = r3\<lparr>analytics := (analytics r3)
                           \<lparr>events := events (analytics r3) @ events (analytics guestProfile)\<rparr>\<rparr>;
                  r5 = r4\<lparr>metadata := (metadata r4)
                           \<lparr>visit_count := visit_count (metadata r4) +
                                            visit_count (metadata guestProfile)\<rparr>\<rparr>;
                  s2 = s1\<lparr>localStorage := (localStorage s1)(guestProfileKey := None)\<rparr>
              in (r5,
                  if remote_update_ok e
                  then s2\<lparr>remote_writes := remote_writes s2 @ [DocUpdate (profile_id r5) r5]\<rparr>
                  else s2)))"






text \<open>
  \<^verbatim>\<open>convertGuestToRegistered\<close>. The steps after the guard are inside a \<^verbatim>\<open>try\<close> whose
  handler logs and rethrows. An absent \<^verbatim>\<open>userInfo.name\<close> is stored as \<open>JNull\<close>. The
  value returned is the object that \<^verbatim>\<open>currentProfile\<close> refers to when the call ends.
\<close>

definition convertGuestToRegistered ::
    "'n::{zero,one,plus,times,ord} env \<Rightarrow> user_info \<Rightarrow> string \<Rightarrow> 'n state \<Rightarrow> (error + 'n profile) \<times> 'n state" where
  "convertGuestToRegistered e userInfo password s =
     (case currentProfile s of
        None \<Rightarrow> (Inl NoGuestProfile, s)
      | Some guestProfile \<Rightarrow>
          if profile_type guestProfile \<noteq> guest then (Inl NoGuestProfile, s)
          else
            (case auth_create e of
               Inl err \<Rightarrow> (Inl err, s)
             | Inr user \<Rightarrow>
                 if (case ui_name userInfo of Some n \<Rightarrow> n \<noteq> [] | None \<Rightarrow> False) \<and>
                    \<not> display_name_ok e
                 then (Inl (AuthError ''updateProfile''), s)
                 else
                   (let (sessionId, s1) = generateSessionId e s;
                        guestProfileKey = guest_profile_key sessionId;
                        registeredProfile = guestProfile
                          \<lparr>profile_id := uid user,
                           profile_type := registered,
                           updated_at := now e,
                           personal_info :=
                             assign (personal_info guestProfile)
                               [(''email'', JStr (ui_email userInfo)),
                                (''name'', case ui_name userInfo of Some n \<Rightarrow> JStr n | None \<Rightarrow> JNull),
                                (''phone'', case ui_phone userInfo of
                                              Some ph \<Rightarrow> if ph \<noteq> [] then JStr ph else JNull
                                            | None \<Rightarrow> JNull)],
                           preferences :=
                             set_key ''marketing_emails''
                               (JBool (ui_marketing_emails userInfo = Some True))
                               (preferences guestProfile),
                           converted_from_guest :=
                             Some \<lparr>original_guest_id = profile_id guestProfile,
                                   converted_at = now e,
                                   guest_session_id = sessionId\<rparr>\<rparr>;
                        s2 = (if remote_delete_ok e
                              then s1\<lparr>remote_writes := remote_writes s1 @
                                         [DocDelete (profile_id guestProfile)]\<rparr>
                              else s1)
                    in if \<not> remote_set_ok e then (Inl RemoteError, s2)
                       else
                         (let s3 = s2\<lparr>remote_writes := remote_writes s2 @
                                        [DocSet (uid user) registeredProfile]\<rparr>;
                              s4 = s3\<lparr>localStorage := (localStorage s3)(guestProfileKey := None)\<rparr>;
                              s5 = s4\<lparr>currentProfile := Some registeredProfile\<rparr>;
                              s6 = trackAction e ''guest_converted_to_registered''
                                     (JObj [(''original_guest_id'', JStr (profile_id guestProfile)),
                                            (''new_user_id'', JStr (uid user)),
                                            (''cart_items'',
                                               JLength (length (cart_items (cart_of registeredProfile)))),
                                            (''cart_value'', JNum (cart_total (cart_of registeredProfile)))])
                                     s5
                          in (case currentProfile s6 of
                                Some p \<Rightarrow> (Inr p, s6)
                              | None \<Rightarrow> (Inr registeredProfile, s6))))))"

subsection \<open>OfflineProfileManager\<close>

definition storageKey :: string where
  "storageKey = ''offline_profile''"

text \<open>
  \<^verbatim>\<open>saveProfile\<close> writes the current profile to the Local Cache and swallows a failed
  write. Every caller has checked that \<^verbatim>\<open>currentProfile\<close> is set.
\<close>

definition saveProfile ::
    "'n::{zero,one,plus,times,ord} env \<Rightarrow> 'n state \<Rightarrow> 'n state" where
  "saveProfile e s =
     (case currentProfile s of
        None \<Rightarrow> s
      | Some p \<Rightarrow>
          if local_set_ok e
          then s\<lparr>localStorage := (localStorage s)(storageKey \<mapsto> Json p)\<rparr>
          else s)"

definition offline_updateCartTotal ::
    "'n::{zero,one,plus,times,ord} env \<Rightarrow> 'n state \<Rightarrow> 'n state" where
  "offline_updateCartTotal e s =
     (case currentProfile s of
        None \<Rightarrow> s
      | Some p \<Rightarrow>
          (case products e of
             None \<Rightarrow> s
           | Some ps \<Rightarrow>
               s\<lparr>currentProfile :=
                    Some (set_cart ((cart_of p)\<lparr>cart_total := cart_sum ps (cart_items (cart_of p)),
                                               cart_updated_at := Some (now e)\<rparr>) p)\<rparr>))"

definition offline_updateProfile ::
    "'n::{zero,one,plus,times,ord} env \<Rightarrow> 'n profile_updates \<Rightarrow> 'n state \<Rightarrow> 'n profile option \<times> 'n state" where
  "offline_updateProfile e updates s =
     (case currentProfile s of
        None \<Rightarrow> (None, s)
      | Some p \<Rightarrow>
          (let p' = p\<lparr>personal_info :=
                        assign (personal_info p)
                          (case upd_personal_info updates of Some u \<Rightarrow> u | None \<Rightarrow> []),
                      preferences :=
                        assign (preferences p)
                          (case upd_preferences updates of Some u \<Rightarrow> u | None \<Rightarrow> []),
                      updated_at := now e\<rparr>
           in (Some p', saveProfile e (s\<lparr>currentProfile := Some p'\<rparr>))))"

definition offline_trackAction ::
    "'n::{zero,one,plus,times,ord} env \<Rightarrow> string \<Rightarrow> 'n jsval \<Rightarrow> 'n state \<Rightarrow> 'n state" where
  "offline_trackAction e action data s =
     (case currentProfile s of
        None \<Rightarrow> s
      | Some p \<Rightarrow>
          (let event = \<lparr>ev_action = action, ev_data = data, ev_timestamp = now e,
                        ev_page_url = page_url e, ev_user_agent = user_agent e\<rparr>;
               pushed = events (analytics p) @ [event];
               kept = (if length pushed > 1000 then slice_last 1000 pushed else pushed);
               p' = p\<lparr>analytics := (analytics p)\<lparr>events := kept\<rparr>,
                      browsing := (browsing p)\<lparr>last_active := now e\<rparr>,
                      updated_at := now e\<rparr>
           in saveProfile e (s\<lparr>currentProfile := Some p'\<rparr>)))"

definition offline_trackPageView ::
    "'n::{zero,one,plus,times,ord} env \<Rightarrow> string \<Rightarrow> 'n jsval \<Rightarrow> 'n state \<Rightarrow> 'n state" where
  "offline_trackPageView e pageName data s =
     (case currentProfile s of
        None \<Rightarrow> s
      | Some p \<Rightarrow>
          (let pageView = \<lparr>pv_page = pageName, pv_data = data, pv_timestamp = now e,
                           pv_url = page_url e\<rparr>;
               pushed = page_views (browsing p) @ [pageView];
               kept = (if length pushed > 500 then slice_last 500 pushed else pushed);
               p' = p\<lparr>browsing := (browsing p)\<lparr>page_views := kept, last_active := now e\<rparr>\<rparr>
           in saveProfile e (s\<lparr>currentProfile := Some p'\<rparr>)))"

definition offline_trackProductView ::
    "'n::{zero,one,plus,times,ord} env \<Rightarrow> string \<Rightarrow> 'n jsval \<Rightarrow> 'n state \<Rightarrow> 'n state" where
  "offline_trackProductView e productId productData s =
     (case currentProfile s of
        None \<Rightarrow> s
      | Some p \<Rightarrow>
          (let productView = \<lparr>prv_product_id = productId, prv_product_data = productData,
                              prv_timestamp = now e\<rparr>;
               pushed = product_views (browsing p) @ [productView];
               kept = (if length pushed > 100 then slice_last 100 pushed else pushed);
               p' = p\<lparr>browsing := (browsing p)\<lparr>product_views := kept\<rparr>\<rparr>
           in saveProfile e (s\<lparr>currentProfile := Some p'\<rparr>)))"

definition offline_addToCart ::
    "'n::{zero,one,plus,times,ord} env \<Rightarrow> string \<Rightarrow> 'n \<Rightarrow> 'n state \<Rightarrow> 'n state" where
  "offline_addToCart e productId quantity s =
     (case currentProfile s of
        None \<Rightarrow> s
      | Some p \<Rightarrow>
          (let xs = cart_items (cart_of p);
               xs' = (case find (\<lambda>item. item_product_id item = productId) xs of
                        Some existingItem \<Rightarrow>
                          update_first (\<lambda>item. item_product_id item = productId)
                            (\<lambda>item. item\<lparr>item_quantity := item_quantity item + quantity,
                                          item_updated_at := now e\<rparr>) xs
                      | None \<Rightarrow>
                          xs @ [\<lparr>item_product_id = productId,
                                 item_quantity = quantity,
                                 item_added_at = now e,
                                 item_updated_at = now e\<rparr>])
           in saveProfile e
                (offline_updateCartTotal e (s\<lparr>currentProfile := Some (set_cart_items xs' p)\<rparr>))))"

definition offline_removeFromCart ::
    "'n::{zero,one,plus,times,ord} env \<Rightarrow> string \<Rightarrow> 'n state \<Rightarrow> 'n state" where
  "offline_removeFromCart e productId s =
     (case currentProfile s of
        None \<Rightarrow> s
      | Some p \<Rightarrow>
          (let xs' = filter (\<lambda>item. item_product_id item \<noteq> productId) (cart_items (cart_of p))
           in saveProfile e
                (offline_updateCartTotal e (s\<lparr>currentProfile := Some (set_cart_items xs' p)\<rparr>))))"

definition offline_updateCartQuantity ::
    "'n::{zero,one,plus,times,ord} env \<Rightarrow> string \<Rightarrow> 'n \<Rightarrow> 'n state \<Rightarrow> 'n state" where
  "offline_updateCartQuantity e productId quantity s =
     (case currentProfile s of
        None \<Rightarrow> s
      | Some p \<Rightarrow>
          (case find (\<lambda>item. item_product_id item = productId) (cart_items (cart_of p)) of
             None \<Rightarrow> s
           | Some item \<Rightarrow>
               if quantity \<le> 0 then offline_removeFromCart e productId s
               else
                 (let xs' = update_first (\<lambda>item. item_product_id item = productId)
                              (\<lambda>item. item\<lparr>item_quantity := quantity,
                                            item_updated_at := now e\<rparr>)
                              (cart_items (cart_of p))
                  in saveProfile e
                       (offline_updateCartTotal e
                          (s\<lparr>currentProfile := Some (set_cart_items xs' p)\<rparr>)))))"

definition offline_clearCart ::
    "'n::{zero,one,plus,times,ord} env \<Rightarrow> 'n state \<Rightarrow> 'n state" where
  "offline_clearCart e s =
     (case currentProfile s of
        None \<Rightarrow> s
      | Some p \<Rightarrow>
          (let c = cart_of p;
               ab = abandoned_carts (shopping p);
               ab' = (if length (cart_items c) > 0
                      then (let pushed = ab @ [\<lparr>ab_items = cart_items c,
                                                 ab_total = cart_total c,
                                                 ab_updated_at = cart_updated_at c,
                                                 abandoned_at = now e\<rparr>]
                            in if length pushed > 10 then slice_last 10 pushed else pushed)
                      else ab);
               p' = p\<lparr>shopping := (shopping p)
                        \<lparr>abandoned_carts := ab',
                         cart := \<lparr>cart_items = [], cart_total = 0,
                                  cart_updated_at = Some (now e)\<rparr>\<rparr>\<rparr>
           in saveProfile e (s\<lparr>currentProfile := Some p'\<rparr>)))"

definition offline_addToWishlist ::
    "'n::{zero,one,plus,times,ord} env \<Rightarrow> string \<Rightarrow> 'n jsval \<Rightarrow> 'n state \<Rightarrow> 'n state" where
  "offline_addToWishlist e productId productData s =
     (case currentProfile s of
        None \<Rightarrow> s
      | Some p \<Rightarrow>
          (case find (\<lambda>item. wish_product_id item = productId) (wishlist (shopping p)) of
             Some existingItem \<Rightarrow> s
           | None \<Rightarrow>
               (let p' = p\<lparr>shopping := (shopping p)
                             \<lparr>wishlist := wishlist (shopping p) @
                                [\<lparr>wish_product_id = productId,
                                  wish_product_data = productData,
                                  wish_added_at = now e\<rparr>]\<rparr>\<rparr>
                in saveProfile e (s\<lparr>currentProfile := Some p'\<rparr>))))"

definition offline_removeFromWishlist ::
    "'n::{zero,one,plus,times,ord} env \<Rightarrow> string \<Rightarrow> 'n state \<Rightarrow> 'n state" where
  "offline_removeFromWishlist e productId s =
     (case currentProfile s of
        None \<Rightarrow> s
      | Some p \<Rightarrow>
          (let p' = p\<lparr>shopping := (shopping p)
                        \<lparr>wishlist := filter (\<lambda>item. wish_product_id item \<noteq> productId)
                                       (wishlist (shopping p))\<rparr>\<rparr>
           in saveProfile e (s\<lparr>currentProfile := Some p'\<rparr>)))"

definition offline_addPurchase ::
    "'n::{zero,one,plus,times,ord} env \<Rightarrow> 'n jsobject \<Rightarrow> 'n state \<Rightarrow> 'n state" where
  "offline_addPurchase e orderData s =
     (case currentProfile s of
        None \<Rightarrow> s
      | Some p \<Rightarrow>
          (let purchase = set_key ''purchased_at'' (JStr (now e)) orderData;
               p' = p\<lparr>shopping := (shopping p)
                        \<lparr>purchase_history := purchase_history (shopping p) @ [purchase]\<rparr>\<rparr>
           in saveProfile e (offline_clearCart e (s\<lparr>currentProfile := Some p'\<rparr>))))"

subsection \<open>Sequences of mutations\<close>

text \<open>
  The mutations that both managers offer, as the calls a client makes. A client
  calls them one after the other; each call sees its own environment (the clock
  moves on, the catalog may be reloaded). An error thrown by \<^verbatim>\<open>updateProfile\<close> goes to
  the caller and the next call starts from the state left behind.
\<close>

datatype 'n operation =
    UpdateProfile "'n profile_updates"
  | TrackAction string "'n jsval"
  | TrackPageView string "'n jsval"
  | TrackProductView string "'n jsval"
  | AddToCart string 'n
  | RemoveFromCart string
  | UpdateCartQuantity string 'n
  | ClearCart
  | AddToWishlist string "'n jsval"
  | RemoveFromWishlist string
  | AddPurchase "'n jsobject"

fun perform ::
    "'n::{zero,one,plus,times,ord} env \<Rightarrow> 'n operation \<Rightarrow> 'n state \<Rightarrow> 'n state" where
  "perform e (UpdateProfile updates) s = snd (updateProfile e updates s)"
| "perform e (TrackAction action data) s = trackAction e action data s"
| "perform e (TrackPageView pageName data) s = trackPageView e pageName data s"
| "perform e (TrackProductView productId productData) s = trackProductView e productId productData s"
| "perform e (AddToCart productId quantity) s = addToCart e productId quantity s"
| "perform e (RemoveFromCart productId) s = removeFromCart e productId s"
| "perform e (UpdateCartQuantity productId quantity) s = updateCartQuantity e productId quantity s"
| "perform e ClearCart s = clearCart e s"
| "perform e (AddToWishlist productId productData) s = addToWishlist e productId productData s"
| "perform e (RemoveFromWishlist productId) s = removeFromWishlist e productId s"
| "perform e (AddPurchase orderData) s = addPurchase e orderData s"

fun offline_perform ::
    "'n::{zero,one,plus,times,ord} env \<Rightarrow> 'n operation \<Rightarrow> 'n state \<Rightarrow> 'n state" where
  "offline_perform e (UpdateProfile updates) s = snd (offline_updateProfile e updates s)"
| "offline_perform e (TrackAction action data) s = offline_trackAction e action data s"
| "offline_perform e (TrackPageView pageName data) s = offline_trackPageView e pageName data s"
| "offline_perform e (TrackProductView productId productData) s =
     offline_trackProductView e productId productData s"
| "offline_perform e (AddToCart productId quantity) s = offline_addToCart e productId quantity s"
| "offline_perform e (RemoveFromCart productId) s = offline_removeFromCart e productId s"
| "offline_perform e (UpdateCartQuantity productId quantity) s =
     offline_updateCartQuantity e productId quantity s"
| "offline_perform e ClearCart s = offline_clearCart e s"
| "offline_perform e (AddToWishlist productId productData) s =
     offline_addToWishlist e productId productData s"
| "offline_perform e (RemoveFromWishlist productId) s = offline_removeFromWishlist e productId s"
| "offline_perform e (AddPurchase orderData) s = offline_addPurchase e orderData s"

fun run ::
    "('n::{zero,one,plus,times,ord} env \<times> 'n operation) list \<Rightarrow> 'n state \<Rightarrow> 'n state" where
  "run [] s = s"
| "run (step # steps) s = run steps (perform (fst step) (snd step) s)"

fun offline_run ::
    "('n::{zero,one,plus,times,ord} env \<times> 'n operation) list \<Rightarrow> 'n state \<Rightarrow> 'n state" where
  "offline_run [] s = s"
| "offline_run (step # steps) s = offline_run steps (offline_perform (fst step) (snd step) s)"

subsection \<open>What the specification calls the cart total\<close>

text \<open>
  The catalog price of a product identifier, when it resolves, and the sum over the
  cart lines of catalog price times quantity, a line whose product does not resolve
  contributing nothing. The sum is taken with the machine's addition, from 0 and line
  by line in cart order; where addition is associative with unit 0 it is the sum of
  the list of terms (lemma \<open>priced_sum_exact\<close> below).
\<close>

definition catalog_price ::
    "'n::{zero,one,plus,times,ord} product list \<Rightarrow> string \<Rightarrow> 'n option" where
  "catalog_price ps productId = map_option price (find (\<lambda>p. product_ident p = productId) ps)"

definition priced_sum ::
    "'n::{zero,one,plus,times,ord} product list \<Rightarrow> 'n cart_line list \<Rightarrow> 'n" where
  "priced_sum ps xs =
     foldl (\<lambda>sum item. case catalog_price ps (item_product_id item) of
                          Some c \<Rightarrow> sum + c * item_quantity item
                        | None \<Rightarrow> sum) 0 xs"

definition total_consistent ::
    "'n::{zero,one,plus,times,ord} product list \<Rightarrow> 'n profile \<Rightarrow> bool" where
  "total_consistent ps p \<longleftrightarrow> cart_total (cart_of p) = priced_sum ps (cart_items (cart_of p))"

definition product_ids :: "'n::{zero,one,plus,times,ord} profile \<Rightarrow> string list" where
  "product_ids p = map item_product_id (cart_items (cart_of p))"

subsection \<open>Auxiliary notions for the statements\<close>

text \<open>
  The calls that write \<^verbatim>\<open>cart.total\<close> in a given state: every cart mutation, except an
  \<^verbatim>\<open>updateCartQuantity\<close> for a product that is not in the cart, which changes nothing.
  \<open>total_written\<close> says that some call of a sequence, in the state it is made in,
  is one of them.
\<close>

fun rewrites_total ::
    "'n::{zero,one,plus,times,ord} operation \<Rightarrow> 'n state \<Rightarrow> bool" where
  "rewrites_total (AddToCart productId quantity) s = True"
| "rewrites_total (RemoveFromCart productId) s = True"
| "rewrites_total (UpdateCartQuantity productId quantity) s =
     (case currentProfile s of
        None \<Rightarrow> False
      | Some p \<Rightarrow> productId \<in> set (product_ids p))"
| "rewrites_total ClearCart s = True"
| "rewrites_total (AddPurchase orderData) s = True"
| "rewrites_total op s = False"

fun total_written ::
    "('n::{zero,one,plus,times,ord} env \<times> 'n operation) list \<Rightarrow> 'n state \<Rightarrow> bool" where
  "total_written [] s = False"
| "total_written (step # steps) s =
     (rewrites_total (snd step) s \<or> total_written steps (perform (fst step) (snd step) s))"



text \<open>
  A \<^verbatim>\<open>trackAction\<close> call is its environment, the action and the data; \<open>event_of\<close> is
  the event the call builds, \<open>track_steps\<close> turns calls into a sequence of mutations.
\<close>

definition event_of ::
    "'n::{zero,one,plus,times,ord} env \<times> string \<times> 'n jsval \<Rightarrow> 'n analytics_event" where
  "event_of call =
     \<lparr>ev_action = fst (snd call), ev_data = snd (snd call), ev_timestamp = now (fst call),
      ev_page_url = page_url (fst call), ev_user_agent = user_agent (fst call)\<rparr>"

definition track_steps ::
    "('n::{zero,one,plus,times,ord} env \<times> string \<times> 'n jsval) list \<Rightarrow> ('n env \<times> 'n operation) list" where
  "track_steps calls = map (\<lambda>call. (fst call, TrackAction (fst (snd call)) (snd (snd call)))) calls"

subsection \<open>Concrete inputs\<close>

definition demo_catalog :: "rat product list" where
  "demo_catalog = [\<lparr>product_ident = ''sku-1'', price = 999 / 100\<rparr>]"

definition demo_env :: "rat env" where
  "demo_env =
     \<lparr>now = ''2024-05-01T10:00:00.000Z'',
      date_now = ''1714557600000'',
      random_token = ''k3x9q0zab'',
      page_url = ''https://shop.example/index.html'',
      user_agent = ''Mozilla/5.0'',
      screen_resolution = ''1920x1080'',
      timezone = ''UTC'',
      language = ''en-US'',
      referrer = [],
      products = Some demo_catalog,
      auth_create = Inl (AuthError ''auth/email-already-in-use''),
      display_name_ok = True,
      remote_get = (\<lambda>profileId. Inr None),
      remote_set_ok = True,
      remote_update_ok = True,
      remote_delete_ok = True,
      local_set_ok = True\<rparr>"

definition demo_boot :: "rat state" where
  "demo_boot =
     \<lparr>currentProfile = None,
      batchUpdateScheduled = False,
      remote_writes = [],
      localStorage = Map.empty,
      sessionStorage = Some ''session_1''\<rparr>"

definition demo_guest :: "rat profile" where
  "demo_guest = fst (createBaseProfile demo_env ''guest_session_1'' guest demo_boot)"

definition demo_state :: "rat state" where
  "demo_state = demo_boot\<lparr>currentProfile := Some demo_guest\<rparr>"

definition demo_line :: "string \<Rightarrow> rat \<Rightarrow> rat cart_line" where
  "demo_line productId quantity =
     \<lparr>item_product_id = productId, item_quantity = quantity,
      item_added_at = ''2024-04-30T09:00:00.000Z'',
      item_updated_at = ''2024-04-30T09:00:00.000Z''\<rparr>"

definition demo_user_info :: user_info where
  "demo_user_info =
     \<lparr>ui_email = ''a@b.com'', ui_name = Some ''Ann'', ui_phone = None,
      ui_marketing_emails = None\<rparr>"

text \<open>
  A guest profile as a previous page load left it: two units of \<^verbatim>\<open>sku-1\<close>, the total
  computed when the unit price was 9.99. The catalog now lists \<^verbatim>\<open>sku-1\<close> at 12.
\<close>

definition stale_profile :: "rat profile" where
  "stale_profile =
     set_cart \<lparr>cart_items = [demo_line ''sku-1'' 2], cart_total = 1998 / 100,
               cart_updated_at = Some ''2024-04-30T09:00:00.000Z''\<rparr> demo_guest"

definition stale_state :: "rat state" where
  "stale_state = demo_boot\<lparr>currentProfile := Some stale_profile\<rparr>"

definition repriced_catalog :: "rat product list" where
  "repriced_catalog = [\<lparr>product_ident = ''sku-1'', price = 12\<rparr>]"

definition repriced_env :: "rat env" where
  "repriced_env = demo_env\<lparr>products := Some repriced_catalog\<rparr>"

text \<open>
  A registered profile with three cart lines (total 10), current while the Local
  Cache holds, under the session's key, a guest profile with one cart line
  (total 25).
\<close>

definition member_profile :: "rat profile" where
  "member_profile =
     set_cart \<lparr>cart_items = [demo_line ''sku-1'' 1, demo_line ''sku-2'' 1, demo_line ''sku-3'' 1],
               cart_total = 10,
               cart_updated_at = Some ''2024-04-30T09:00:00.000Z''\<rparr>
       (demo_guest\<lparr>profile_id := ''uid-1'', profile_type := registered\<rparr>)"

definition returning_guest :: "rat profile" where
  "returning_guest =
     set_cart \<lparr>cart_items = [demo_line ''sku-9'' 1], cart_total = 25,
               cart_updated_at = Some ''2024-04-30T09:00:00.000Z''\<rparr> demo_guest"

definition signed_in_state :: "rat state" where
  "signed_in_state =
     demo_boot\<lparr>currentProfile := Some member_profile,
               localStorage := [guest_profile_key ''session_1'' \<mapsto> Json returning_guest]\<rparr>"

text \<open>No profile is current and the Local Cache holds a guest profile whose cart is empty.\<close>

definition fresh_cache_state :: "rat state" where
  "fresh_cache_state =
     demo_boot\<lparr>localStorage := [guest_profile_key ''session_1'' \<mapsto> Json demo_guest]\<rparr>"





section \<open>Auxiliary lemmas\<close>

subsection \<open>Lists\<close>

lemma length_slice_last: "length (slice_last n xs) = min n (length xs)"
  by (simp add: slice_last_def)

lemma slice_last_id: "length xs \<le> n \<Longrightarrow> slice_last n xs = xs"
  by (simp add: slice_last_def)

lemma slice_last_append_absorb:
  "slice_last n (slice_last n xs @ ys) = slice_last n (xs @ ys)"
proof (cases "length xs \<le> n")
  case True
  then show ?thesis by (simp add: slice_last_def)
next
  case False
  then have "length xs + length ys - (length xs - n + n) + (length xs - n) = length xs + length ys - n"
    by arith
  then show ?thesis by (simp add: slice_last_def)
qed

subsection \<open>The loop of updateCartTotal computes the priced sum\<close>

lemma cart_sum_fold:
  "foldl (\<lambda>total item.
            case find (\<lambda>p. product_ident p = item_product_id item) ps of
              Some product \<Rightarrow> total + price product * item_quantity item
            | None \<Rightarrow> total) a xs =
   foldl (\<lambda>sum item.
            case catalog_price ps (item_product_id item) of
              Some c \<Rightarrow> sum + c * item_quantity item
            | None \<Rightarrow> sum) a xs"
  by (induction xs arbitrary: a) (simp_all add: catalog_price_def split: option.splits)

lemma cart_sum_priced: "cart_sum ps xs = priced_sum ps xs"
  by (simp add: cart_sum_def priced_sum_def cart_sum_fold)

text \<open>With an addition that is associative and has unit 0, the fold is the sum of the terms.\<close>

lemma priced_sum_fold_exact:
  fixes a :: "'n::{semiring_0,one,ord}"
  shows "foldl (\<lambda>sum item. case catalog_price ps (item_product_id item) of
                          Some c \<Rightarrow> sum + c * item_quantity item
                        | None \<Rightarrow> sum) a xs =
         a + (\<Sum>item\<leftarrow>xs. case catalog_price ps (item_product_id item) of
                            Some c \<Rightarrow> c * item_quantity item
                          | None \<Rightarrow> 0)"
  by (induction xs arbitrary: a) (auto simp: add.assoc split: option.splits)

lemma priced_sum_exact:
  fixes ps :: "'n::{semiring_0,one,ord} product list"
  shows "priced_sum ps xs =
         (\<Sum>item\<leftarrow>xs. case catalog_price ps (item_product_id item) of
                       Some c \<Rightarrow> c * item_quantity item
                     | None \<Rightarrow> 0)"
  by (simp add: priced_sum_def priced_sum_fold_exact)

subsection \<open>Persistence leaves the profile in memory alone\<close>

lemma currentProfile_batchUpdateProfile [simp]:
  "currentProfile (batchUpdateProfile s) = currentProfile s"
  by (simp add: batchUpdateProfile_def)

lemma currentProfile_saveProfile [simp]:
  "currentProfile (saveProfile e s) = currentProfile s"
  by (simp add: saveProfile_def split: option.splits)

lemma currentProfile_generateSessionId [simp]:
  "currentProfile (snd (generateSessionId e s)) = currentProfile s"
  by (simp add: generateSessionId_def Let_def split: option.splits)

lemma offline_updateCartTotal_eq: "offline_updateCartTotal e s = updateCartTotal e s"
  by (simp add: offline_updateCartTotal_def updateCartTotal_def)

subsection \<open>One mutation, both managers\<close>

lemma perform_agrees:
  assumes "currentProfile s = currentProfile s'"
  shows "currentProfile (perform e op s) = currentProfile (offline_perform e op s')"
proof (cases op)
  case (UpdateProfile u)
  with assms show ?thesis
    by (simp add: updateProfile_def offline_updateProfile_def Let_def case_prod_beta
        split: option.splits)
next
  case (TrackAction a d)
  with assms show ?thesis
    by (simp add: trackAction_def offline_trackAction_def Let_def split: option.splits)
next
  case (TrackPageView a d)
  with assms show ?thesis
    by (simp add: trackPageView_def offline_trackPageView_def Let_def split: option.splits)
next
  case (TrackProductView a d)
  with assms show ?thesis
    by (simp add: trackProductView_def offline_trackProductView_def Let_def split: option.splits)
next
  case (AddToCart a q)
  with assms show ?thesis
    by (simp add: addToCart_def offline_addToCart_def offline_updateCartTotal_eq
        updateCartTotal_def Let_def split: option.splits)
next
  case (RemoveFromCart a)
  with assms show ?thesis
    by (simp add: removeFromCart_def offline_removeFromCart_def offline_updateCartTotal_eq
        updateCartTotal_def Let_def split: option.splits)
next
  case (UpdateCartQuantity a q)
  with assms show ?thesis
    by (simp add: updateCartQuantity_def offline_updateCartQuantity_def
        removeFromCart_def offline_removeFromCart_def offline_updateCartTotal_eq
        updateCartTotal_def Let_def split: option.splits)
next
  case ClearCart
  with assms show ?thesis
    by (simp add: clearCart_def offline_clearCart_def Let_def split: option.splits)
next
  case (AddToWishlist a d)
  with assms show ?thesis
    by (simp add: addToWishlist_def offline_addToWishlist_def Let_def split: option.splits)
next
  case (RemoveFromWishlist a)
  with assms show ?thesis
    by (simp add: removeFromWishlist_def offline_removeFromWishlist_def Let_def split: option.splits)
next
  case (AddPurchase d)
  with assms show ?thesis
    by (simp add: addPurchase_def offline_addPurchase_def clearCart_def offline_clearCart_def
        Let_def split: option.splits)
qed

subsection \<open>The total: established by some mutations, preserved by all\<close>

lemma priced_sum_Nil [simp]: "priced_sum ps [] = 0"
  by (simp add: priced_sum_def)

lemma total_step_establish:
  assumes "currentProfile s = Some p" "products e = Some ps" "rewrites_total op s"
  shows "\<exists>p'. currentProfile (perform e op s) = Some p' \<and> total_consistent ps p'"
proof (cases op)
  case (AddToCart a q)
  with assms show ?thesis
    by (simp add: addToCart_def updateCartTotal_def total_consistent_def cart_sum_priced Let_def)
next
  case (RemoveFromCart a)
  with assms show ?thesis
    by (simp add: removeFromCart_def updateCartTotal_def total_consistent_def cart_sum_priced Let_def)
next
  case (UpdateCartQuantity a q)
  with assms have "find (\<lambda>item. item_product_id item = a) (cart_items (cart_of p)) \<noteq> None"
    by (simp add: find_None_iff product_ids_def) blast
  with assms UpdateCartQuantity show ?thesis
    by (auto simp add: updateCartQuantity_def removeFromCart_def updateCartTotal_def
        total_consistent_def cart_sum_priced Let_def)
next
  case ClearCart
  with assms show ?thesis
    by (simp add: clearCart_def total_consistent_def Let_def)
next
  case (AddPurchase d)
  with assms show ?thesis
    by (simp add: addPurchase_def clearCart_def total_consistent_def Let_def)
qed (use assms in simp_all)

lemma total_step_preserve:
  assumes "currentProfile s = Some p" "products e = Some ps" "total_consistent ps p"
  shows "\<exists>p'. currentProfile (perform e op s) = Some p' \<and> total_consistent ps p'"
proof (cases "rewrites_total op s")
  case True
  with assms show ?thesis by (simp add: total_step_establish)
next
  case False
  show ?thesis
  proof (cases op)
    case (UpdateProfile u)
    with assms show ?thesis
      by (simp add: updateProfile_def total_consistent_def Let_def case_prod_beta)
  next
    case (TrackAction a d)
    with assms show ?thesis
      by (simp add: trackAction_def total_consistent_def Let_def)
  next
    case (TrackPageView a d)
    with assms show ?thesis
      by (simp add: trackPageView_def total_consistent_def Let_def)
  next
    case (TrackProductView a d)
    with assms show ?thesis
      by (simp add: trackProductView_def total_consistent_def Let_def)
  next
    case (UpdateCartQuantity a q)
    with assms show ?thesis
      by (simp add: updateCartQuantity_def removeFromCart_def updateCartTotal_def
          total_consistent_def cart_sum_priced Let_def split: option.splits)
  next
    case (AddToWishlist a d)
    with assms show ?thesis
      by (simp add: addToWishlist_def total_consistent_def Let_def split: option.splits)
  next
    case (RemoveFromWishlist a)
    with assms show ?thesis
      by (simp add: removeFromWishlist_def total_consistent_def Let_def)
  qed (use False in simp_all)
qed

lemma perform_keeps_profile:
  assumes "currentProfile s = Some p"
  shows "\<exists>p'. currentProfile (perform e op s) = Some p'"
  using assms
  by (cases op)
    (simp_all add: updateProfile_def trackAction_def trackPageView_def trackProductView_def
      addToCart_def removeFromCart_def updateCartQuantity_def clearCart_def addToWishlist_def
      removeFromWishlist_def addPurchase_def updateCartTotal_def Let_def case_prod_beta
      split: option.splits)

lemma total_run_preserve:
  assumes "currentProfile s = Some p" "\<forall>step\<in>set steps. products (fst step) = Some ps"
    "total_consistent ps p"
  shows "\<exists>p'. currentProfile (run steps s) = Some p' \<and> total_consistent ps p'"
  using assms
proof (induction steps arbitrary: s p)
  case Nil
  then show ?case by simp
next
  case (Cons step steps)
  from Cons.prems obtain p1 where
    "currentProfile (perform (fst step) (snd step) s) = Some p1" "total_consistent ps p1"
    using total_step_preserve [of s p "fst step" ps "snd step"] by auto
  with Cons.IH [of "perform (fst step) (snd step) s" p1] Cons.prems(2)
  show ?case by simp
qed

lemma total_run_establish:
  assumes "currentProfile s = Some p" "\<forall>step\<in>set steps. products (fst step) = Some ps"
    "total_written steps s"
  shows "\<exists>p'. currentProfile (run steps s) = Some p' \<and> total_consistent ps p'"
  using assms
proof (induction steps arbitrary: s p)
  case Nil
  then show ?case by simp
next
  case (Cons step steps)
  obtain p0 where p0: "currentProfile (perform (fst step) (snd step) s) = Some p0"
    using perform_keeps_profile [OF Cons.prems(1)] by blast
  show ?case
  proof (cases "rewrites_total (snd step) s")
    case True
    then obtain p1 where
      "currentProfile (perform (fst step) (snd step) s) = Some p1" "total_consistent ps p1"
      using total_step_establish [of s p "fst step" ps "snd step"] Cons.prems by auto
    with total_run_preserve [of "perform (fst step) (snd step) s" p1 steps ps] Cons.prems(2)
    show ?thesis by simp
  next
    case False
    with Cons.prems(3) have "total_written steps (perform (fst step) (snd step) s)" by simp
    with Cons.IH [OF p0] Cons.prems(2) show ?thesis by simp
  qed
qed

subsection \<open>The first matching line\<close>

lemma update_first_split:
  assumes "find P xs = Some x"
  shows "\<exists>ys zs. xs = ys @ x # zs \<and> (\<forall>y\<in>set ys. \<not> P y) \<and> P x \<and>
           update_first P f xs = ys @ f x # zs"
  using assms
proof (induction xs)
  case Nil
  then show ?case by simp
next
  case (Cons a xs)
  show ?case
  proof (cases "P a")
    case True
    with Cons.prems have "a = x" by simp
    with True have "a # xs = [] @ x # xs \<and> (\<forall>y\<in>set []. \<not> P y) \<and> P x \<and>
        update_first P f (a # xs) = [] @ f x # xs"
      by simp
    then show ?thesis by blast
  next
    case False
    with Cons.prems have "find P xs = Some x" by simp
    from Cons.IH [OF this] obtain ys zs where
      "xs = ys @ x # zs" "\<forall>y\<in>set ys. \<not> P y" "P x" "update_first P f xs = ys @ f x # zs"
      by blast
    with False have "a # xs = (a # ys) @ x # zs \<and> (\<forall>y\<in>set (a # ys). \<not> P y) \<and> P x \<and>
        update_first P f (a # xs) = (a # ys) @ f x # zs"
      by simp
    then show ?thesis by blast
  qed
qed

lemma map_update_first:
  assumes "\<And>x. g (f x) = g x"
  shows "map g (update_first P f xs) = map g xs"
  by (induction xs) (simp_all add: assms)

lemma length_update_first [simp]: "length (update_first P f xs) = length xs"
  by (induction xs) simp_all

lemma find_product_None:
  "find (\<lambda>item. item_product_id item = pid) xs = None \<longleftrightarrow> pid \<notin> set (map item_product_id xs)"
  by (auto simp: find_None_iff)

subsection \<open>Pairwise different product identifiers\<close>

lemma distinct_step:
  assumes "currentProfile s = Some p" "distinct (product_ids p)"
  shows "\<exists>p'. currentProfile (perform e op s) = Some p' \<and> distinct (product_ids p')"
proof (cases op)
  case (UpdateProfile u)
  with assms show ?thesis
    by (simp add: updateProfile_def product_ids_def Let_def case_prod_beta)
next
  case (TrackAction a d)
  with assms show ?thesis by (simp add: trackAction_def product_ids_def Let_def)
next
  case (TrackPageView a d)
  with assms show ?thesis by (simp add: trackPageView_def product_ids_def Let_def)
next
  case (TrackProductView a d)
  with assms show ?thesis by (simp add: trackProductView_def product_ids_def Let_def)
next
  case (AddToCart a q)
  with assms show ?thesis
    by (auto simp: addToCart_def updateCartTotal_def product_ids_def Let_def
        map_update_first find_product_None split: option.splits)
next
  case (RemoveFromCart a)
  with assms show ?thesis
    by (auto simp: removeFromCart_def updateCartTotal_def product_ids_def Let_def
        distinct_map_filter split: option.splits)
next
  case (UpdateCartQuantity a q)
  with assms show ?thesis
    by (auto simp: updateCartQuantity_def removeFromCart_def updateCartTotal_def product_ids_def
        Let_def map_update_first distinct_map_filter split: option.splits)
next
  case ClearCart
  with assms show ?thesis by (simp add: clearCart_def product_ids_def Let_def)
next
  case (AddToWishlist a d)
  with assms show ?thesis
    by (simp add: addToWishlist_def product_ids_def Let_def split: option.splits)
next
  case (RemoveFromWishlist a)
  with assms show ?thesis by (simp add: removeFromWishlist_def product_ids_def Let_def)
next
  case (AddPurchase d)
  with assms show ?thesis by (simp add: addPurchase_def clearCart_def product_ids_def Let_def)
qed

lemma distinct_run:
  assumes "currentProfile s = Some p" "distinct (product_ids p)"
  shows "\<exists>p'. currentProfile (run steps s) = Some p' \<and> distinct (product_ids p')"
  using assms
proof (induction steps arbitrary: s p)
  case Nil
  then show ?case by simp
next
  case (Cons step steps)
  from distinct_step [OF Cons.prems, of "fst step" "snd step"] obtain p1 where
    "currentProfile (perform (fst step) (snd step) s) = Some p1" "distinct (product_ids p1)"
    by blast
  from Cons.IH [OF this] show ?case by simp
qed

subsection \<open>At most ten abandoned carts\<close>

lemma abandoned_step:
  assumes "currentProfile s = Some p" "length (abandoned_carts (shopping p)) \<le> 10"
  shows "\<exists>p'. currentProfile (perform e op s) = Some p' \<and>
           length (abandoned_carts (shopping p')) \<le> 10"
proof (cases op)
  case (UpdateProfile u)
  with assms show ?thesis
    by (simp add: updateProfile_def Let_def case_prod_beta)
next
  case (TrackAction a d)
  with assms show ?thesis by (simp add: trackAction_def Let_def)
next
  case (TrackPageView a d)
  with assms show ?thesis by (simp add: trackPageView_def Let_def)
next
  case (TrackProductView a d)
  with assms show ?thesis by (simp add: trackProductView_def Let_def)
next
  case (AddToCart a q)
  with assms show ?thesis
    by (simp add: addToCart_def updateCartTotal_def Let_def split: option.splits)
next
  case (RemoveFromCart a)
  with assms show ?thesis
    by (simp add: removeFromCart_def updateCartTotal_def Let_def split: option.splits)
next
  case (UpdateCartQuantity a q)
  with assms show ?thesis
    by (simp add: updateCartQuantity_def removeFromCart_def updateCartTotal_def
        Let_def split: option.splits)
next
  case ClearCart
  with assms show ?thesis by (simp add: clearCart_def Let_def length_slice_last)
next
  case (AddToWishlist a d)
  with assms show ?thesis
    by (simp add: addToWishlist_def Let_def split: option.splits)
next
  case (RemoveFromWishlist a)
  with assms show ?thesis by (simp add: removeFromWishlist_def Let_def)
next
  case (AddPurchase d)
  with assms show ?thesis by (simp add: addPurchase_def clearCart_def Let_def length_slice_last)
qed

lemma abandoned_run:
  assumes "currentProfile s = Some p" "length (abandoned_carts (shopping p)) \<le> 10"
  shows "\<exists>p'. currentProfile (run steps s) = Some p' \<and>
           length (abandoned_carts (shopping p')) \<le> 10"
  using assms
proof (induction steps arbitrary: s p)
  case Nil
  then show ?case by simp
next
  case (Cons step steps)
  from abandoned_step [OF Cons.prems, of "fst step" "snd step"] obtain p1 where
    "currentProfile (perform (fst step) (snd step) s) = Some p1"
    "length (abandoned_carts (shopping p1)) \<le> 10"
    by blast
  from Cons.IH [OF this] show ?case by simp
qed

subsection \<open>The event history\<close>

lemma run_append: "run (xs @ ys) s = run ys (run xs s)"
  by (induction xs arbitrary: s) simp_all

lemma offline_run_append: "offline_run (xs @ ys) s = offline_run ys (offline_run xs s)"
  by (induction xs arbitrary: s) simp_all

lemma trackAction_events:
  assumes "currentProfile s = Some p"
  shows "\<exists>p'. currentProfile (trackAction e a d s) = Some p' \<and>
           events (analytics p') = slice_last 1000 (events (analytics p) @ [event_of (e, a, d)])"
  using assms
  by (simp add: trackAction_def Let_def event_of_def slice_last_id)

lemma offline_trackAction_events:
  assumes "currentProfile s = Some p"
  shows "\<exists>p'. currentProfile (offline_trackAction e a d s) = Some p' \<and>
           events (analytics p') = slice_last 1000 (events (analytics p) @ [event_of (e, a, d)])"
  using assms
  by (simp add: offline_trackAction_def Let_def event_of_def slice_last_id)

lemma track_run_events:
  assumes "calls \<noteq> []" "currentProfile s = Some p"
  shows "\<exists>p'. currentProfile (run (track_steps calls) s) = Some p' \<and>
           events (analytics p') = slice_last 1000 (events (analytics p) @ map event_of calls)"
  using assms
proof (induction calls rule: rev_nonempty_induct)
  case (single c)
  from trackAction_events [OF single, of "fst c" "fst (snd c)" "snd (snd c)"]
  show ?case by (simp add: track_steps_def)
next
  case (snoc c cs)
  from snoc.IH [OF snoc.prems] obtain p1 where p1:
    "currentProfile (run (track_steps cs) s) = Some p1"
    "events (analytics p1) = slice_last 1000 (events (analytics p) @ map event_of cs)"
    by blast
  from trackAction_events [OF p1(1), of "fst c" "fst (snd c)" "snd (snd c)"] p1(2)
  show ?case by (simp add: track_steps_def run_append slice_last_append_absorb)
qed

lemma offline_track_run_events:
  assumes "calls \<noteq> []" "currentProfile s = Some p"
  shows "\<exists>p'. currentProfile (offline_run (track_steps calls) s) = Some p' \<and>
           events (analytics p') = slice_last 1000 (events (analytics p) @ map event_of calls)"
  using assms
proof (induction calls rule: rev_nonempty_induct)
  case (single c)
  from offline_trackAction_events [OF single, of "fst c" "fst (snd c)" "snd (snd c)"]
  show ?case by (simp add: track_steps_def)
next
  case (snoc c cs)
  from snoc.IH [OF snoc.prems] obtain p1 where p1:
    "currentProfile (offline_run (track_steps cs) s) = Some p1"
    "events (analytics p1) = slice_last 1000 (events (analytics p) @ map event_of cs)"
    by blast
  from offline_trackAction_events [OF p1(1), of "fst c" "fst (snd c)" "snd (snd c)"] p1(2)
  show ?case by (simp add: track_steps_def offline_run_append slice_last_append_absorb)
qed

lemma slice_last_recent:
  assumes "n \<le> length ys"
  shows "slice_last n (xs @ ys) = drop (length ys - n) ys"
  using assms by (simp add: slice_last_def)

subsection \<open>Facts about the concrete inputs and the session identifier\<close>

lemma demo_guest_simps:
  "profile_type demo_guest = guest"
  "profile_id demo_guest = ''guest_session_1''"
  "cart_of demo_guest = \<lparr>cart_items = [], cart_total = 0, cart_updated_at = None\<rparr>"
  "abandoned_carts (shopping demo_guest) = []"
  "events (analytics demo_guest) = []"
  by (simp_all add: demo_guest_def createBaseProfile_def generateSessionId_def demo_boot_def
      Let_def)

lemma localStorage_generateSessionId [simp]:
  "localStorage (snd (generateSessionId e s)) = localStorage s"
  by (simp add: generateSessionId_def Let_def split: option.splits)

subsection \<open>What addToCart does to the cart lines\<close>

lemma find_append_miss:
  assumes "\<forall>y\<in>set ys. \<not> P y"
  shows "find P (ys @ zs) = find P zs"
  using assms by (induction ys) simp_all

lemma update_first_append_miss:
  assumes "\<forall>y\<in>set ys. \<not> P y"
  shows "update_first P f (ys @ zs) = ys @ update_first P f zs"
  using assms by (induction ys) simp_all

lemma addToCart_absent:
  assumes "currentProfile s = Some p" "productId \<notin> set (product_ids p)"
  shows "\<exists>p'. currentProfile (addToCart e productId quantity s) = Some p' \<and>
           cart_items (cart_of p') = cart_items (cart_of p) @
             [\<lparr>item_product_id = productId, item_quantity = quantity,
               item_added_at = now e, item_updated_at = now e\<rparr>]"
proof -
  from assms(2) have "find (\<lambda>item. item_product_id item = productId) (cart_items (cart_of p)) = None"
    by (simp add: find_product_None product_ids_def)
  with assms(1) show ?thesis
    by (simp add: addToCart_def updateCartTotal_def Let_def split: option.splits)
qed

lemma addToCart_present:
  assumes "currentProfile s = Some p"
    and "find (\<lambda>item. item_product_id item = productId) (cart_items (cart_of p)) = Some line"
  shows "\<exists>p' before after.
           cart_items (cart_of p) = before @ line # after \<and>
           productId \<notin> item_product_id ` set before \<and>
           item_product_id line = productId \<and>
           currentProfile (addToCart e productId quantity s) = Some p' \<and>
           cart_items (cart_of p') =
             before @ line\<lparr>item_quantity := item_quantity line + quantity,
                            item_updated_at := now e\<rparr> # after"
proof -
  from update_first_split [OF assms(2),
      of "\<lambda>item. item\<lparr>item_quantity := item_quantity item + quantity, item_updated_at := now e\<rparr>"]
  obtain ys zs where split:
    "cart_items (cart_of p) = ys @ line # zs"
    "\<forall>y\<in>set ys. item_product_id y \<noteq> productId"
    "item_product_id line = productId"
    "update_first (\<lambda>item. item_product_id item = productId)
       (\<lambda>item. item\<lparr>item_quantity := item_quantity item + quantity, item_updated_at := now e\<rparr>)
       (cart_items (cart_of p)) =
     ys @ line\<lparr>item_quantity := item_quantity line + quantity, item_updated_at := now e\<rparr> # zs"
    by blast
  from split(2) have miss: "productId \<notin> item_product_id ` set ys" by auto
  have "\<exists>p'. currentProfile (addToCart e productId quantity s) = Some p' \<and>
    cart_items (cart_of p') =
       update_first (\<lambda>item. item_product_id item = productId)
         (\<lambda>item. item\<lparr>item_quantity := item_quantity item + quantity, item_updated_at := now e\<rparr>)
         (cart_items (cart_of p))"
    using assms
    by (simp add: addToCart_def updateCartTotal_def Let_def split: option.splits)
  then obtain p' where p': "currentProfile (addToCart e productId quantity s) = Some p'"
    "cart_items (cart_of p') =
       update_first (\<lambda>item. item_product_id item = productId)
         (\<lambda>item. item\<lparr>item_quantity := item_quantity item + quantity, item_updated_at := now e\<rparr>)
         (cart_items (cart_of p))"
    by blast
  from p'(2) split(4) have items':
    "cart_items (cart_of p') =
       ys @ line\<lparr>item_quantity := item_quantity line + quantity, item_updated_at := now e\<rparr> # zs"
    by (simp only:)
  from split(1) miss split(3) p'(1) items' show ?thesis by blast
qed

lemma addToCart_twice:
  assumes "currentProfile s = Some p" "productId \<notin> set (product_ids p)"
  shows "\<exists>p'. currentProfile (addToCart e' productId 1 (addToCart e productId 1 s)) = Some p' \<and>
           cart_items (cart_of p') = cart_items (cart_of p) @
             [\<lparr>item_product_id = productId, item_quantity = 1 + 1,
               item_added_at = now e, item_updated_at = now e'\<rparr>]"
proof -
  let ?new = "\<lparr>item_product_id = productId, item_quantity = 1,
               item_added_at = now e, item_updated_at = now e\<rparr>"
  from addToCart_absent [OF assms, of e 1] obtain p1 where p1:
    "currentProfile (addToCart e productId 1 s) = Some p1"
    "cart_items (cart_of p1) = cart_items (cart_of p) @ [?new]"
    by blast
  from assms(2) have miss: "\<forall>y\<in>set (cart_items (cart_of p)). \<not> item_product_id y = productId"
    by (auto simp: product_ids_def)
  have found: "find (\<lambda>item. item_product_id item = productId) (cart_items (cart_of p1)) = Some ?new"
    by (simp add: p1(2) find_append_miss [OF miss])
  have upd: "update_first (\<lambda>item. item_product_id item = productId)
       (\<lambda>item. item\<lparr>item_quantity := item_quantity item + 1, item_updated_at := now e'\<rparr>)
       (cart_items (cart_of p1)) =
     cart_items (cart_of p) @ [\<lparr>item_product_id = productId, item_quantity = 1 + 1,
               item_added_at = now e, item_updated_at = now e'\<rparr>]"
    by (simp add: p1(2) update_first_append_miss [OF miss])
  show ?thesis
    using p1(1) found upd
    by (simp add: addToCart_def [of e'] updateCartTotal_def Let_def split: option.splits)
qed

lemma find_update_first:
  assumes "find P xs = Some x" "P (f x)"
  shows "find P (update_first P f xs) = Some (f x)"
proof -
  from update_first_split [OF assms(1), of f] obtain ys zs where
    "\<forall>y\<in>set ys. \<not> P y" "update_first P f xs = ys @ f x # zs"
    by blast
  with assms(2) show ?thesis by (simp add: find_append_miss)
qed

lemma stale_profile_simps:
  "cart_items (cart_of stale_profile) = [demo_line ''sku-1'' 2]"
  "product_ids stale_profile = [''sku-1'']"
  "abandoned_carts (shopping stale_profile) = []"
  "cart_total (cart_of stale_profile) = 1998 / 100"
  "cart_updated_at (cart_of stale_profile) = Some ''2024-04-30T09:00:00.000Z''"
  by (simp_all add: stale_profile_def product_ids_def demo_line_def demo_guest_simps)

lemma demo_guest_product_ids: "product_ids demo_guest = []"
  by (simp add: product_ids_def demo_guest_simps)

subsection \<open>Signing out, signing in and the Local Cache\<close>





lemma createBaseProfile_cart:
  "cart_of (fst (createBaseProfile e profileId profileType s)) =
     \<lparr>cart_items = [], cart_total = 0, cart_updated_at = None\<rparr>"
  "profile_type (fst (createBaseProfile e profileId profileType s)) = profileType"
  by (simp_all add: createBaseProfile_def case_prod_beta)

lemma createBaseProfile_total_consistent:
  "total_consistent ps (fst (createBaseProfile e profileId profileType s))"
  by (simp add: total_consistent_def createBaseProfile_cart)






















subsection \<open>Facts about the concrete sign-in and sign-up\<close>






section \<open>The claims\<close>

subsection \<open>C1: a failed account creation leaves everything as it was\<close>

text \<open>
  Claim C1. When the current profile is a guest profile and the Identity Provider
  rejects the account creation inside \<^verbatim>\<open>convertGuestToRegistered\<close>, the call throws
  that error and the whole state is the one before the call: the current profile
  (type, id, cart and every other field), the Remote Profile Store, the Local Cache
  and the session identifier.
\<close>

theorem conversion_atomic_on_auth_failure:
  assumes "currentProfile s = Some p" "profile_type p = guest" "auth_create e = Inl err"
  shows "convertGuestToRegistered e userInfo password s = (Inl err, s)"
  using assms by (simp add: convertGuestToRegistered_def)

theorem conversion_atomic_on_auth_failure_witness:
  "currentProfile demo_state = Some demo_guest \<and> profile_type demo_guest = guest \<and>
   auth_create demo_env = Inl (AuthError ''auth/email-already-in-use'') \<and>
   convertGuestToRegistered demo_env demo_user_info ''secret'' demo_state =
     (Inl (AuthError ''auth/email-already-in-use''), demo_state)"
  using conversion_atomic_on_auth_failure
    [of demo_state demo_guest demo_env "AuthError ''auth/email-already-in-use''"
        demo_user_info "''secret''"]
  by (simp add: demo_state_def demo_env_def demo_guest_simps)

subsection \<open>C2: the cart rule of the merge\<close>

text \<open>
  Claim C2. In \<^verbatim>\<open>mergeGuestData\<close>, with a guest profile cached under the session's
  key: when the guest cart has at least one line, the registered profile's cart
  becomes the guest cart, whatever the registered cart held; when the guest cart has
  no line, the registered profile's cart stays as it was.
\<close>

theorem merge_cart_rule:
  assumes "localStorage s (guest_profile_key (fst (generateSessionId e s))) = Some (Json guestProfile)"
  shows "(cart_items (cart_of guestProfile) \<noteq> [] \<longrightarrow>
            cart_of (fst (mergeGuestData e registeredProfile s)) = cart_of guestProfile) \<and>
         (cart_items (cart_of guestProfile) = [] \<longrightarrow>
            cart_of (fst (mergeGuestData e registeredProfile s)) = cart_of registeredProfile)"
  using assms by (simp add: mergeGuestData_def Let_def case_prod_beta)

text \<open>
  The registered cart totals 10. With a cached guest cart of one line and total 25
  the merged total is 25; with a cached guest cart of no line it stays 10.
\<close>

theorem merge_cart_rule_witness:
  "localStorage signed_in_state (guest_profile_key (fst (generateSessionId demo_env signed_in_state)))
     = Some (Json returning_guest) \<and>
   cart_total (cart_of member_profile) = 10 \<and>
   cart_items (cart_of returning_guest) \<noteq> [] \<and>
   cart_total (cart_of (fst (mergeGuestData demo_env member_profile signed_in_state))) = 25 \<and>
   localStorage fresh_cache_state
       (guest_profile_key (fst (generateSessionId demo_env fresh_cache_state)))
     = Some (Json demo_guest) \<and>
   cart_items (cart_of demo_guest) = [] \<and>
   cart_total (cart_of (fst (mergeGuestData demo_env member_profile fresh_cache_state))) = 10"
proof -
  have key: "localStorage signed_in_state
      (guest_profile_key (fst (generateSessionId demo_env signed_in_state))) = Some (Json returning_guest)"
    by (simp add: signed_in_state_def demo_boot_def generateSessionId_def)
  have items: "cart_items (cart_of returning_guest) \<noteq> []"
    by (simp add: returning_guest_def)
  have key': "localStorage fresh_cache_state
      (guest_profile_key (fst (generateSessionId demo_env fresh_cache_state))) = Some (Json demo_guest)"
    by (simp add: fresh_cache_state_def demo_boot_def generateSessionId_def)
  have empty: "cart_items (cart_of demo_guest) = []"
    by (simp add: demo_guest_simps)
  from merge_cart_rule [OF key, of member_profile] items
  have a: "cart_of (fst (mergeGuestData demo_env member_profile signed_in_state)) = cart_of returning_guest"
    by simp
  from merge_cart_rule [OF key', of member_profile] empty
  have b: "cart_of (fst (mergeGuestData demo_env member_profile fresh_cache_state)) = cart_of member_profile"
    by simp
  have totals: "cart_total (cart_of returning_guest) = 25" "cart_total (cart_of member_profile) = 10"
    by (simp_all add: returning_guest_def member_profile_def)
  from key items key' empty totals show ?thesis
    unfolding a b by blast
qed

subsection \<open>C3: the cart total after a sequence of cart mutations\<close>

text \<open>
  Claim C3. For every sequence of cart mutations on a profile, every call seeing the
  same catalog, the resulting \<^verbatim>\<open>cart.total\<close> equals the sum, over the cart lines, of
  catalog price times quantity, a line whose product is absent from the catalog
  contributing nothing. The sum is the one the machine computes: from 0, line by
  line in cart order.

  The equality is an invariant of the cart. A new profile has it (second conjunct)
  and every mutation keeps it. Every call that writes the cart establishes it,
  whatever the total was before: \<^verbatim>\<open>addToCart\<close>, \<^verbatim>\<open>removeFromCart\<close>, \<^verbatim>\<open>clearCart\<close>,
  \<^verbatim>\<open>addPurchase\<close>, and \<^verbatim>\<open>updateCartQuantity\<close> for a product in the cart. An
  \<^verbatim>\<open>updateCartQuantity\<close> for a product that is not in the cart changes nothing.
\<close>

theorem cart_total_invariant:
  assumes "currentProfile s = Some p"
    and "\<forall>step\<in>set steps. products (fst step) = Some ps"
    and "total_consistent ps p \<or> total_written steps s"
  shows "(\<exists>p'. currentProfile (run steps s) = Some p' \<and>
            cart_total (cart_of p') = priced_sum ps (cart_items (cart_of p'))) \<and>
         total_consistent ps (fst (createBaseProfile e profileId profileType s0))"
proof
  from assms total_run_preserve [of s p steps ps] total_run_establish [of s p steps ps]
  show "\<exists>p'. currentProfile (run steps s) = Some p' \<and>
            cart_total (cart_of p') = priced_sum ps (cart_items (cart_of p'))"
    unfolding total_consistent_def by blast
  show "total_consistent ps (fst (createBaseProfile e profileId profileType s0))"
    by (rule createBaseProfile_total_consistent)
qed

text \<open>
  From a new profile: two \<^verbatim>\<open>addToCart('sku-1', 1)\<close> at unit price 9.99, then an
  \<^verbatim>\<open>updateCartQuantity\<close> for a product that is not in the cart; the total is 19.98.
  From a profile whose total was computed under an earlier price:
  \<^verbatim>\<open>updateCartQuantity('sku-1', 5)\<close> at unit price 12; the total is 60.
\<close>

theorem cart_total_invariant_witness:
  "currentProfile demo_state = Some demo_guest \<and>
   total_consistent demo_catalog demo_guest \<and>
   (\<exists>p'. currentProfile (run [(demo_env, AddToCart ''sku-1'' 1), (demo_env, AddToCart ''sku-1'' 1),
                               (demo_env, UpdateCartQuantity ''sku-7'' 4)] demo_state) = Some p' \<and>
         cart_total (cart_of p') = priced_sum demo_catalog (cart_items (cart_of p')) \<and>
         cart_total (cart_of p') = 1998 / 100) \<and>
   currentProfile stale_state = Some stale_profile \<and>
   total_written [(repriced_env, UpdateCartQuantity ''sku-1'' 5)] stale_state \<and>
   (\<exists>p'. currentProfile (run [(repriced_env, UpdateCartQuantity ''sku-1'' 5)] stale_state) = Some p' \<and>
         cart_total (cart_of p') = priced_sum repriced_catalog (cart_items (cart_of p')) \<and>
         cart_total (cart_of p') = 60)"
proof -
  let ?steps = "[(demo_env, AddToCart ''sku-1'' 1), (demo_env, AddToCart ''sku-1'' 1),
                 (demo_env, UpdateCartQuantity ''sku-7'' 4)]"
  let ?update = "[(repriced_env, UpdateCartQuantity ''sku-1'' 5)]"
  have h1: "currentProfile demo_state = Some demo_guest" by (simp add: demo_state_def)
  have h2: "\<forall>step\<in>set ?steps. products (fst step) = Some demo_catalog"
    by (simp add: demo_env_def)
  have h3: "total_consistent demo_catalog demo_guest"
    by (simp add: total_consistent_def demo_guest_simps)
  from cart_total_invariant [OF h1 h2] h3
  obtain p' where p': "currentProfile (run ?steps demo_state) = Some p'"
    "cart_total (cart_of p') = priced_sum demo_catalog (cart_items (cart_of p'))"
    by blast
  have "cart_items (cart_of p') =
      [\<lparr>item_product_id = ''sku-1'', item_quantity = 2, item_added_at = now demo_env,
        item_updated_at = now demo_env\<rparr>]"
    using p'(1) h1
    by (auto simp add: addToCart_def updateCartQuantity_def updateCartTotal_def demo_env_def
        demo_guest_simps Let_def)
  with p'(2) have "cart_total (cart_of p') = 1998 / 100"
    by (simp add: priced_sum_def catalog_price_def demo_catalog_def)
  with p' have a: "\<exists>p'. currentProfile (run ?steps demo_state) = Some p' \<and>
         cart_total (cart_of p') = priced_sum demo_catalog (cart_items (cart_of p')) \<and>
         cart_total (cart_of p') = 1998 / 100"
    by blast
  have k1: "currentProfile stale_state = Some stale_profile" by (simp add: stale_state_def)
  have k2: "\<forall>step\<in>set ?update. products (fst step) = Some repriced_catalog"
    by (simp add: repriced_env_def)
  have k3: "total_written ?update stale_state"
    by (simp add: k1 stale_profile_simps)
  from cart_total_invariant [OF k1 k2] k3
  obtain q' where q': "currentProfile (run ?update stale_state) = Some q'"
    "cart_total (cart_of q') = priced_sum repriced_catalog (cart_items (cart_of q'))"
    by blast
  have "cart_items (cart_of q') =
      [(demo_line ''sku-1'' 2)\<lparr>item_quantity := 5, item_updated_at := now repriced_env\<rparr>]"
    using q'(1) k1
    by (auto simp add: updateCartQuantity_def updateCartTotal_def repriced_env_def
        stale_profile_simps demo_line_def Let_def)
  with q'(2) have "cart_total (cart_of q') = 60"
    by (simp add: priced_sum_def catalog_price_def repriced_catalog_def demo_line_def)
  with q' have b: "\<exists>p'. currentProfile (run ?update stale_state) = Some p' \<and>
         cart_total (cart_of p') = priced_sum repriced_catalog (cart_items (cart_of p')) \<and>
         cart_total (cart_of p') = 60"
    by blast
  from h1 h3 a k1 k3 b show ?thesis by simp
qed

subsection \<open>C4: adding to the cart aggregates by product\<close>

text \<open>
  Claim C4. For a current profile and a product identifier, \<^verbatim>\<open>addToCart\<close>
  \<^item> when the cart has a line for the product: adds the quantity to the first such
    line and sets its \<^verbatim>\<open>updated_at\<close> to now, every other line staying as it was;
  \<^item> otherwise: appends one line with that quantity, \<^verbatim>\<open>added_at\<close> and \<^verbatim>\<open>updated_at\<close>
    both now.

  Consequently a cart whose lines have pairwise different product identifiers (as
  the empty cart of a new profile has) keeps that property under every sequence of
  mutations; and \<^verbatim>\<open>addToCart(p, 1)\<close> twice on a cart without \<open>p\<close> leaves one line for
  \<open>p\<close>, after the lines that were there, whose quantity is what the machine gives
  for \<open>1 + 1\<close>: that is 2, and the concrete instance below shows it. The increment
  is the machine's addition of the two numbers.
\<close>

theorem addToCart_aggregates:
  assumes "currentProfile s = Some p"
  shows
    "(\<forall>line. find (\<lambda>item. item_product_id item = productId) (cart_items (cart_of p)) = Some line \<longrightarrow>
        (\<exists>p' before after.
           cart_items (cart_of p) = before @ line # after \<and>
           productId \<notin> item_product_id ` set before \<and>
           item_product_id line = productId \<and>
           currentProfile (addToCart e productId quantity s) = Some p' \<and>
           cart_items (cart_of p') =
             before @ line\<lparr>item_quantity := item_quantity line + quantity,
                            item_updated_at := now e\<rparr> # after)) \<and>
     (productId \<notin> set (product_ids p) \<longrightarrow>
        (\<exists>p'. currentProfile (addToCart e productId quantity s) = Some p' \<and>
           cart_items (cart_of p') = cart_items (cart_of p) @
             [\<lparr>item_product_id = productId, item_quantity = quantity,
               item_added_at = now e, item_updated_at = now e\<rparr>])) \<and>
     (distinct (product_ids p) \<longrightarrow>
        (\<exists>p'. currentProfile (run steps s) = Some p' \<and> distinct (product_ids p'))) \<and>
     (productId \<notin> set (product_ids p) \<longrightarrow>
        (\<exists>p'. currentProfile (addToCart e' productId 1 (addToCart e productId 1 s)) = Some p' \<and>
           cart_items (cart_of p') = cart_items (cart_of p) @
             [\<lparr>item_product_id = productId, item_quantity = 1 + 1,
               item_added_at = now e, item_updated_at = now e'\<rparr>]))"
proof (intro conjI allI impI)
  fix line
  assume "find (\<lambda>item. item_product_id item = productId) (cart_items (cart_of p)) = Some line"
  from addToCart_present [OF assms this]
  show "\<exists>p' before after.
           cart_items (cart_of p) = before @ line # after \<and>
           productId \<notin> item_product_id ` set before \<and>
           item_product_id line = productId \<and>
           currentProfile (addToCart e productId quantity s) = Some p' \<and>
           cart_items (cart_of p') =
             before @ line\<lparr>item_quantity := item_quantity line + quantity,
                            item_updated_at := now e\<rparr> # after" .
next
  assume "productId \<notin> set (product_ids p)"
  from addToCart_absent [OF assms this]
  show "\<exists>p'. currentProfile (addToCart e productId quantity s) = Some p' \<and>
           cart_items (cart_of p') = cart_items (cart_of p) @
             [\<lparr>item_product_id = productId, item_quantity = quantity,
               item_added_at = now e, item_updated_at = now e\<rparr>]" .
next
  assume "distinct (product_ids p)"
  from distinct_run [OF assms this]
  show "\<exists>p'. currentProfile (run steps s) = Some p' \<and> distinct (product_ids p')" .
next
  assume "productId \<notin> set (product_ids p)"
  from addToCart_twice [OF assms this]
  show "\<exists>p'. currentProfile (addToCart e' productId 1 (addToCart e productId 1 s)) = Some p' \<and>
           cart_items (cart_of p') = cart_items (cart_of p) @
             [\<lparr>item_product_id = productId, item_quantity = 1 + 1,
               item_added_at = now e, item_updated_at = now e'\<rparr>]" .
qed
theorem addToCart_aggregates_witness:
  "currentProfile stale_state = Some stale_profile \<and>
   find (\<lambda>item. item_product_id item = ''sku-1'') (cart_items (cart_of stale_profile))
     = Some (demo_line ''sku-1'' 2) \<and>
   (\<exists>p'. currentProfile (addToCart demo_env ''sku-1'' 3 stale_state) = Some p' \<and>
      cart_items (cart_of p') =
        [(demo_line ''sku-1'' 2)\<lparr>item_quantity := 5, item_updated_at := now demo_env\<rparr>]) \<and>
   currentProfile demo_state = Some demo_guest \<and>
   ''sku-1'' \<notin> set (product_ids demo_guest) \<and>
   distinct (product_ids demo_guest) \<and>
   (\<exists>p'. currentProfile (addToCart demo_env ''sku-1'' 1 demo_state) = Some p' \<and>
      cart_items (cart_of p') =
        [\<lparr>item_product_id = ''sku-1'', item_quantity = 1,
          item_added_at = now demo_env, item_updated_at = now demo_env\<rparr>]) \<and>
   (\<exists>p'. currentProfile (run [(demo_env, AddToCart ''sku-1'' 1), (demo_env, AddToCart ''sku-1'' 1)]
                            demo_state) = Some p' \<and>
      distinct (product_ids p')) \<and>
   (\<exists>p'. currentProfile (addToCart repriced_env ''sku-1'' 1 (addToCart demo_env ''sku-1'' 1 demo_state))
           = Some p' \<and>
      cart_items (cart_of p') =
        [\<lparr>item_product_id = ''sku-1'', item_quantity = 2,
          item_added_at = now demo_env, item_updated_at = now repriced_env\<rparr>])"
proof -
  have h1: "currentProfile stale_state = Some stale_profile" by (simp add: stale_state_def)
  have found: "find (\<lambda>item. item_product_id item = ''sku-1'') (cart_items (cart_of stale_profile))
     = Some (demo_line ''sku-1'' 2)"
    by (simp add: stale_profile_simps demo_line_def)
  have h2: "currentProfile demo_state = Some demo_guest" by (simp add: demo_state_def)
  have absent: "''sku-1'' \<notin> set (product_ids demo_guest)" by (simp add: demo_guest_product_ids)
  have dist: "distinct (product_ids demo_guest)" by (simp add: demo_guest_product_ids)
  from addToCart_aggregates [OF h1, of "''sku-1''" demo_env 3] found
  obtain p' before after where ex:
    "cart_items (cart_of stale_profile) = before @ demo_line ''sku-1'' 2 # after"
    "currentProfile (addToCart demo_env ''sku-1'' 3 stale_state) = Some p'"
    "cart_items (cart_of p') =
       before @ (demo_line ''sku-1'' 2)\<lparr>item_quantity := item_quantity (demo_line ''sku-1'' 2) + 3,
                                          item_updated_at := now demo_env\<rparr> # after"
    by blast
  from ex(1) have "before = [] \<and> after = []"
    by (simp add: stale_profile_simps Cons_eq_append_conv)
  with ex(2,3) have a: "\<exists>p'. currentProfile (addToCart demo_env ''sku-1'' 3 stale_state) = Some p' \<and>
      cart_items (cart_of p') =
        [(demo_line ''sku-1'' 2)\<lparr>item_quantity := 5, item_updated_at := now demo_env\<rparr>]"
    by (simp add: demo_line_def)
  from addToCart_aggregates [OF h2, of "''sku-1''" demo_env 1
      "[(demo_env, AddToCart ''sku-1'' 1), (demo_env, AddToCart ''sku-1'' 1)]" repriced_env]
    absent dist
  have b: "\<exists>p'. currentProfile (addToCart demo_env ''sku-1'' 1 demo_state) = Some p' \<and>
      cart_items (cart_of p') = cart_items (cart_of demo_guest) @
        [\<lparr>item_product_id = ''sku-1'', item_quantity = 1,
          item_added_at = now demo_env, item_updated_at = now demo_env\<rparr>]"
    and c: "\<exists>p'. currentProfile (run [(demo_env, AddToCart ''sku-1'' 1), (demo_env, AddToCart ''sku-1'' 1)]
                            demo_state) = Some p' \<and> distinct (product_ids p')"
    and d: "\<exists>p'. currentProfile (addToCart repriced_env ''sku-1'' 1 (addToCart demo_env ''sku-1'' 1 demo_state))
           = Some p' \<and>
      cart_items (cart_of p') = cart_items (cart_of demo_guest) @
        [\<lparr>item_product_id = ''sku-1'', item_quantity = 1 + 1,
          item_added_at = now demo_env, item_updated_at = now repriced_env\<rparr>]"
    by blast+
  from h1 found a h2 absent dist b c d show ?thesis
    by (simp add: demo_guest_simps)
qed

subsection \<open>C5: clearing the cart records it as abandoned\<close>

text \<open>
  Claim C5. For a current profile, \<^verbatim>\<open>clearCart\<close>
  \<^item> on a cart with at least one line: appends one snapshot of the cart, tagged
    \<^verbatim>\<open>abandoned_at\<close>, to \<^verbatim>\<open>abandoned_carts\<close> and keeps the last ten entries of the
    list, dropping the oldest, then leaves the cart empty with total 0;
  \<^item> on an empty cart: leaves \<^verbatim>\<open>abandoned_carts\<close> as it was.

  A list of at most ten abandoned carts (a new profile has none) has at most ten
  entries after every sequence of mutations.
\<close>

theorem clearCart_abandons:
  assumes "currentProfile s = Some p"
  shows
    "(cart_items (cart_of p) \<noteq> [] \<longrightarrow>
        (\<exists>p'. currentProfile (clearCart e s) = Some p' \<and>
           abandoned_carts (shopping p') =
             drop (length (abandoned_carts (shopping p)) - 9)
               (abandoned_carts (shopping p) @
                  [\<lparr>ab_items = cart_items (cart_of p), ab_total = cart_total (cart_of p),
                    ab_updated_at = cart_updated_at (cart_of p), abandoned_at = now e\<rparr>]) \<and>
           length (abandoned_carts (shopping p')) = min 10 (length (abandoned_carts (shopping p)) + 1) \<and>
           cart_of p' = \<lparr>cart_items = [], cart_total = 0, cart_updated_at = Some (now e)\<rparr>)) \<and>
     (cart_items (cart_of p) = [] \<longrightarrow>
        (\<exists>p'. currentProfile (clearCart e s) = Some p' \<and>
           abandoned_carts (shopping p') = abandoned_carts (shopping p) \<and>
           cart_of p' = \<lparr>cart_items = [], cart_total = 0, cart_updated_at = Some (now e)\<rparr>)) \<and>
     (length (abandoned_carts (shopping p)) \<le> 10 \<longrightarrow>
        (\<exists>p'. currentProfile (run steps s) = Some p' \<and>
           length (abandoned_carts (shopping p')) \<le> 10))"
proof (intro conjI impI)
  assume "cart_items (cart_of p) \<noteq> []"
  with assms show "\<exists>p'. currentProfile (clearCart e s) = Some p' \<and>
           abandoned_carts (shopping p') =
             drop (length (abandoned_carts (shopping p)) - 9)
               (abandoned_carts (shopping p) @
                  [\<lparr>ab_items = cart_items (cart_of p), ab_total = cart_total (cart_of p),
                    ab_updated_at = cart_updated_at (cart_of p), abandoned_at = now e\<rparr>]) \<and>
           length (abandoned_carts (shopping p')) = min 10 (length (abandoned_carts (shopping p)) + 1) \<and>
           cart_of p' = \<lparr>cart_items = [], cart_total = 0, cart_updated_at = Some (now e)\<rparr>"
    by (auto simp add: clearCart_def Let_def slice_last_def)
next
  assume "cart_items (cart_of p) = []"
  with assms show "\<exists>p'. currentProfile (clearCart e s) = Some p' \<and>
           abandoned_carts (shopping p') = abandoned_carts (shopping p) \<and>
           cart_of p' = \<lparr>cart_items = [], cart_total = 0, cart_updated_at = Some (now e)\<rparr>"
    by (simp add: clearCart_def Let_def)
next
  assume "length (abandoned_carts (shopping p)) \<le> 10"
  from abandoned_run [OF assms this]
  show "\<exists>p'. currentProfile (run steps s) = Some p' \<and>
           length (abandoned_carts (shopping p')) \<le> 10" .
qed
theorem clearCart_abandons_witness:
  "currentProfile stale_state = Some stale_profile \<and>
   cart_items (cart_of stale_profile) \<noteq> [] \<and>
   length (abandoned_carts (shopping stale_profile)) \<le> 10 \<and>
   (\<exists>p'. currentProfile (clearCart demo_env stale_state) = Some p' \<and>
      abandoned_carts (shopping p') =
        [\<lparr>ab_items = [demo_line ''sku-1'' 2], ab_total = 1998 / 100,
          ab_updated_at = Some ''2024-04-30T09:00:00.000Z'', abandoned_at = now demo_env\<rparr>] \<and>
      cart_of p' = \<lparr>cart_items = [], cart_total = 0, cart_updated_at = Some (now demo_env)\<rparr>) \<and>
   currentProfile demo_state = Some demo_guest \<and>
   cart_items (cart_of demo_guest) = [] \<and>
   (\<exists>p'. currentProfile (clearCart demo_env demo_state) = Some p' \<and>
      abandoned_carts (shopping p') = [] \<and>
      cart_of p' = \<lparr>cart_items = [], cart_total = 0, cart_updated_at = Some (now demo_env)\<rparr>) \<and>
   (\<exists>p'. currentProfile (run [(demo_env, ClearCart), (demo_env, AddToCart ''sku-1'' 1),
                               (demo_env, AddPurchase [])] stale_state) = Some p' \<and>
      length (abandoned_carts (shopping p')) \<le> 10)"
proof -
  have h1: "currentProfile stale_state = Some stale_profile" by (simp add: stale_state_def)
  have nonempty: "cart_items (cart_of stale_profile) \<noteq> []" by (simp add: stale_profile_simps)
  have bound: "length (abandoned_carts (shopping stale_profile)) \<le> 10"
    by (simp add: stale_profile_simps)
  have h2: "currentProfile demo_state = Some demo_guest" by (simp add: demo_state_def)
  have empty: "cart_items (cart_of demo_guest) = []" by (simp add: demo_guest_simps)
  from clearCart_abandons [OF h1, of demo_env
      "[(demo_env, ClearCart), (demo_env, AddToCart ''sku-1'' 1), (demo_env, AddPurchase [])]"]
    nonempty bound
  have a: "\<exists>p'. currentProfile (clearCart demo_env stale_state) = Some p' \<and>
      abandoned_carts (shopping p') =
        drop (length (abandoned_carts (shopping stale_profile)) - 9)
          (abandoned_carts (shopping stale_profile) @
             [\<lparr>ab_items = cart_items (cart_of stale_profile),
               ab_total = cart_total (cart_of stale_profile),
               ab_updated_at = cart_updated_at (cart_of stale_profile),
               abandoned_at = now demo_env\<rparr>]) \<and>
      cart_of p' = \<lparr>cart_items = [], cart_total = 0, cart_updated_at = Some (now demo_env)\<rparr>"
    and c: "\<exists>p'. currentProfile (run [(demo_env, ClearCart), (demo_env, AddToCart ''sku-1'' 1),
                               (demo_env, AddPurchase [])] stale_state) = Some p' \<and>
      length (abandoned_carts (shopping p')) \<le> 10"
    by blast+
  from clearCart_abandons [OF h2, of demo_env "[]"] empty
  have b: "\<exists>p'. currentProfile (clearCart demo_env demo_state) = Some p' \<and>
      abandoned_carts (shopping p') = abandoned_carts (shopping demo_guest) \<and>
      cart_of p' = \<lparr>cart_items = [], cart_total = 0, cart_updated_at = Some (now demo_env)\<rparr>"
    by blast
  from h1 nonempty bound a h2 empty b c show ?thesis
    by (simp add: stale_profile_simps demo_guest_simps)
qed
subsection \<open>C6: signing out\<close>



subsection \<open>C7: the event history is bounded\<close>

text \<open>
  Claim C7. For a current profile, in both managers, a \<^verbatim>\<open>trackAction\<close> call leaves
  \<^verbatim>\<open>analytics.events\<close> with at most 1000 entries: the new event is appended and, of
  the result, the last 1000 are kept, so the oldest go first. After more than 1000
  \<^verbatim>\<open>trackAction\<close> calls the list has exactly 1000 entries, which are the events of
  the last 1000 calls, in order.
\<close>

theorem events_bounded:
  assumes "currentProfile s = Some p"
  shows
    "(\<exists>p'. currentProfile (trackAction e action data s) = Some p' \<and>
        length (events (analytics p')) \<le> 1000 \<and>
        events (analytics p') =
          drop (length (events (analytics p)) - 999)
            (events (analytics p) @ [event_of (e, action, data)])) \<and>
     (\<exists>p'. currentProfile (offline_trackAction e action data s) = Some p' \<and>
        length (events (analytics p')) \<le> 1000 \<and>
        events (analytics p') =
          drop (length (events (analytics p)) - 999)
            (events (analytics p) @ [event_of (e, action, data)])) \<and>
     (1000 < length calls \<longrightarrow>
        (\<exists>p'. currentProfile (run (track_steps calls) s) = Some p' \<and>
           length (events (analytics p')) = 1000 \<and>
           events (analytics p') = drop (length calls - 1000) (map event_of calls))) \<and>
     (1000 < length calls \<longrightarrow>
        (\<exists>p'. currentProfile (offline_run (track_steps calls) s) = Some p' \<and>
           length (events (analytics p')) = 1000 \<and>
           events (analytics p') = drop (length calls - 1000) (map event_of calls)))"
proof (intro conjI impI)
  from trackAction_events [OF assms, of e action data]
  show "\<exists>p'. currentProfile (trackAction e action data s) = Some p' \<and>
        length (events (analytics p')) \<le> 1000 \<and>
        events (analytics p') =
          drop (length (events (analytics p)) - 999)
            (events (analytics p) @ [event_of (e, action, data)])"
    by (auto simp add: slice_last_def)
next
  from offline_trackAction_events [OF assms, of e action data]
  show "\<exists>p'. currentProfile (offline_trackAction e action data s) = Some p' \<and>
        length (events (analytics p')) \<le> 1000 \<and>
        events (analytics p') =
          drop (length (events (analytics p)) - 999)
            (events (analytics p) @ [event_of (e, action, data)])"
    by (auto simp add: slice_last_def)
next
  assume many: "1000 < length calls"
  then have "calls \<noteq> []" by auto
  from track_run_events [OF this assms] many
  show "\<exists>p'. currentProfile (run (track_steps calls) s) = Some p' \<and>
           length (events (analytics p')) = 1000 \<and>
           events (analytics p') = drop (length calls - 1000) (map event_of calls)"
    by (auto simp add: slice_last_recent)
next
  assume many: "1000 < length calls"
  then have "calls \<noteq> []" by auto
  from offline_track_run_events [OF this assms] many
  show "\<exists>p'. currentProfile (offline_run (track_steps calls) s) = Some p' \<and>
           length (events (analytics p')) = 1000 \<and>
           events (analytics p') = drop (length calls - 1000) (map event_of calls)"
    by (auto simp add: slice_last_recent)
qed
theorem events_bounded_witness:
  "currentProfile demo_state = Some demo_guest \<and>
   1000 < length (replicate 1001 (demo_env, ''page_loaded'', JNull)) \<and>
   (\<exists>p'. currentProfile (trackAction demo_env ''page_loaded'' JNull demo_state) = Some p' \<and>
      length (events (analytics p')) \<le> 1000) \<and>
   (\<exists>p'. currentProfile
            (run (track_steps (replicate 1001 (demo_env, ''page_loaded'', JNull))) demo_state)
            = Some p' \<and>
      length (events (analytics p')) = 1000 \<and>
      events (analytics p') = replicate 1000 (event_of (demo_env, ''page_loaded'', JNull))) \<and>
   (\<exists>p'. currentProfile
            (offline_run (track_steps (replicate 1001 (demo_env, ''page_loaded'', JNull))) demo_state)
            = Some p' \<and>
      length (events (analytics p')) = 1000 \<and>
      events (analytics p') = replicate 1000 (event_of (demo_env, ''page_loaded'', JNull)))"
proof -
  have h: "currentProfile demo_state = Some demo_guest" by (simp add: demo_state_def)
  have many: "1000 < length (replicate 1001 (demo_env, ''page_loaded'', JNull))" by simp
  have recent: "drop (length (replicate 1001 (demo_env, ''page_loaded'', JNull)) - 1000)
      (map event_of (replicate 1001 (demo_env, ''page_loaded'', JNull))) =
      replicate 1000 (event_of (demo_env, ''page_loaded'', JNull))"
    by simp
  note bounded = events_bounded [OF h, of demo_env "''page_loaded''" JNull
      "replicate 1001 (demo_env, ''page_loaded'', JNull)", unfolded recent]
  from bounded have one: "\<exists>p'. currentProfile (trackAction demo_env ''page_loaded'' JNull demo_state) = Some p' \<and>
      length (events (analytics p')) \<le> 1000"
    by auto
  from bounded many have remote: "\<exists>p'. currentProfile
            (run (track_steps (replicate 1001 (demo_env, ''page_loaded'', JNull))) demo_state)
            = Some p' \<and>
      length (events (analytics p')) = 1000 \<and>
      events (analytics p') = replicate 1000 (event_of (demo_env, ''page_loaded'', JNull))"
    by simp
  from bounded many have offline: "\<exists>p'. currentProfile
            (offline_run (track_steps (replicate 1001 (demo_env, ''page_loaded'', JNull))) demo_state)
            = Some p' \<and>
      length (events (analytics p')) = 1000 \<and>
      events (analytics p') = replicate 1000 (event_of (demo_env, ''page_loaded'', JNull))"
    by simp
  from h many one remote offline show ?thesis by simp
qed

subsection \<open>C8: the two managers agree on the profile in memory\<close>

text \<open>
  Claim C8. For each of the eleven mutations both managers offer, the remote-backed
  version and the local-only version, started with the same current profile and
  called with the same arguments in the same environment, end with the same current
  profile; they differ in what they persist and where. The same holds for any
  sequence of such calls.
\<close>

theorem variants_agree:
  assumes "currentProfile s = currentProfile s'"
  shows "currentProfile (perform e op s) = currentProfile (offline_perform e op s') \<and>
         currentProfile (run steps s) = currentProfile (offline_run steps s')"
proof
  show "currentProfile (perform e op s) = currentProfile (offline_perform e op s')"
    using assms by (rule perform_agrees)
  show "currentProfile (run steps s) = currentProfile (offline_run steps s')"
    using assms
  proof (induction steps arbitrary: s s')
    case Nil
    then show ?case by simp
  next
    case (Cons step steps)
    from perform_agrees [OF Cons.prems, of "fst step" "snd step"]
    have "currentProfile (perform (fst step) (snd step) s) =
          currentProfile (offline_perform (fst step) (snd step) s')" .
    from Cons.IH [OF this] show ?case by simp
  qed
qed

theorem variants_agree_witness:
  "currentProfile demo_state = currentProfile (demo_state\<lparr>batchUpdateScheduled := True\<rparr>) \<and>
   currentProfile (perform demo_env (AddToCart ''sku-1'' 2) demo_state) =
     currentProfile (offline_perform demo_env (AddToCart ''sku-1'' 2)
                       (demo_state\<lparr>batchUpdateScheduled := True\<rparr>)) \<and>
   currentProfile (run [(demo_env, AddToCart ''sku-1'' 2), (demo_env, ClearCart)] demo_state) =
     currentProfile (offline_run [(demo_env, AddToCart ''sku-1'' 2), (demo_env, ClearCart)]
                       (demo_state\<lparr>batchUpdateScheduled := True\<rparr>))"
proof -
  have h: "currentProfile demo_state = currentProfile (demo_state\<lparr>batchUpdateScheduled := True\<rparr>)"
    by simp
  from variants_agree [OF h, of demo_env "AddToCart ''sku-1'' 2"
      "[(demo_env, AddToCart ''sku-1'' 2), (demo_env, ClearCart)]"] h
  show ?thesis by blast
qed

subsection \<open>C9: without a current profile every mutation is a no-op\<close>

text \<open>
  Claim C9. While \<^verbatim>\<open>currentProfile\<close> is null, each mutation of either manager returns
  without throwing and leaves the whole state as it was, and \<^verbatim>\<open>updateProfile\<close>
  returns null.
\<close>

theorem null_profile_noop:
  assumes "currentProfile s = None"
  shows "perform e op s = s \<and> offline_perform e op s = s \<and>
         updateProfile e updates s = (Inr None, s) \<and>
         offline_updateProfile e updates s = (None, s)"
proof -
  have "perform e op s = s"
    using assms
    by (cases op)
      (simp_all add: updateProfile_def trackAction_def trackPageView_def trackProductView_def
        addToCart_def removeFromCart_def updateCartQuantity_def clearCart_def addToWishlist_def
        removeFromWishlist_def addPurchase_def)
  moreover have "offline_perform e op s = s"
    using assms
    by (cases op)
      (simp_all add: offline_updateProfile_def offline_trackAction_def offline_trackPageView_def
        offline_trackProductView_def offline_addToCart_def offline_removeFromCart_def
        offline_updateCartQuantity_def offline_clearCart_def offline_addToWishlist_def
        offline_removeFromWishlist_def offline_addPurchase_def)
  moreover have "updateProfile e updates s = (Inr None, s)"
    using assms by (simp add: updateProfile_def)
  moreover have "offline_updateProfile e updates s = (None, s)"
    using assms by (simp add: offline_updateProfile_def)
  ultimately show ?thesis by simp
qed

theorem null_profile_noop_witness:
  "currentProfile demo_boot = None \<and>
   perform demo_env (AddToCart ''sku-1'' 1) demo_boot = demo_boot \<and>
   offline_perform demo_env (AddToCart ''sku-1'' 1) demo_boot = demo_boot \<and>
   updateProfile demo_env \<lparr>upd_personal_info = None, upd_preferences = None\<rparr> demo_boot
     = (Inr None, demo_boot) \<and>
   offline_updateProfile demo_env \<lparr>upd_personal_info = None, upd_preferences = None\<rparr> demo_boot
     = (None, demo_boot)"
proof -
  have h: "currentProfile demo_boot = None" by (simp add: demo_boot_def)
  from null_profile_noop [OF h, of demo_env "AddToCart ''sku-1'' 1"
      "\<lparr>upd_personal_info = None, upd_preferences = None\<rparr>"] h
  show ?thesis by simp
qed

subsection \<open>C10: addToCart does not validate the quantity\<close>

text \<open>
  Claim C10. For a current profile and a quantity that is zero or negative,
  \<^verbatim>\<open>addToCart\<close> neither rejects the call nor removes a line: when the product is not in
  the cart it appends a line with that quantity; when it is, the line stays and its
  quantity is lowered by the amount (below 1, possibly). \<^verbatim>\<open>updateCartQuantity\<close>, by
  contrast, hands a quantity that is zero or negative, for a product in the cart, to
  \<^verbatim>\<open>removeFromCart\<close>, after which the product is not in the cart.
\<close>

theorem addToCart_unvalidated_quantity:
  assumes "currentProfile s = Some p" "quantity \<le> 0"
  shows
    "(productId \<notin> set (product_ids p) \<longrightarrow>
        (\<exists>p'. currentProfile (addToCart e productId quantity s) = Some p' \<and>
           cart_items (cart_of p') = cart_items (cart_of p) @
             [\<lparr>item_product_id = productId, item_quantity = quantity,
               item_added_at = now e, item_updated_at = now e\<rparr>])) \<and>
     (\<forall>line. find (\<lambda>item. item_product_id item = productId) (cart_items (cart_of p)) = Some line \<longrightarrow>
        (\<exists>p'. currentProfile (addToCart e productId quantity s) = Some p' \<and>
           length (cart_items (cart_of p')) = length (cart_items (cart_of p)) \<and>
           find (\<lambda>item. item_product_id item = productId) (cart_items (cart_of p')) =
             Some (line\<lparr>item_quantity := item_quantity line + quantity,
                         item_updated_at := now e\<rparr>))) \<and>
     (productId \<in> set (product_ids p) \<longrightarrow>
        updateCartQuantity e productId quantity s = removeFromCart e productId s \<and>
        (\<exists>p'. currentProfile (updateCartQuantity e productId quantity s) = Some p' \<and>
           productId \<notin> set (product_ids p')))"
proof (intro conjI allI impI)
  assume "productId \<notin> set (product_ids p)"
  from addToCart_absent [OF assms(1) this]
  show "\<exists>p'. currentProfile (addToCart e productId quantity s) = Some p' \<and>
           cart_items (cart_of p') = cart_items (cart_of p) @
             [\<lparr>item_product_id = productId, item_quantity = quantity,
               item_added_at = now e, item_updated_at = now e\<rparr>]" .
next
  fix line
  assume found: "find (\<lambda>item. item_product_id item = productId) (cart_items (cart_of p)) = Some line"
  then have "item_product_id line = productId"
    by (auto simp: find_Some_iff)
  with found have "find (\<lambda>item. item_product_id item = productId)
      (update_first (\<lambda>item. item_product_id item = productId)
         (\<lambda>item. item\<lparr>item_quantity := item_quantity item + quantity, item_updated_at := now e\<rparr>)
         (cart_items (cart_of p))) =
     Some (line\<lparr>item_quantity := item_quantity line + quantity, item_updated_at := now e\<rparr>)"
    by (simp add: find_update_first)
  with assms(1) found
  show "\<exists>p'. currentProfile (addToCart e productId quantity s) = Some p' \<and>
           length (cart_items (cart_of p')) = length (cart_items (cart_of p)) \<and>
           find (\<lambda>item. item_product_id item = productId) (cart_items (cart_of p')) =
             Some (line\<lparr>item_quantity := item_quantity line + quantity,
                         item_updated_at := now e\<rparr>)"
    by (simp add: addToCart_def updateCartTotal_def Let_def split: option.splits)
next
  assume "productId \<in> set (product_ids p)"
  then have "find (\<lambda>item. item_product_id item = productId) (cart_items (cart_of p)) \<noteq> None"
    by (simp add: find_product_None product_ids_def)
  with assms show "updateCartQuantity e productId quantity s = removeFromCart e productId s"
    by (auto simp add: updateCartQuantity_def)
next
  assume "productId \<in> set (product_ids p)"
  then have "find (\<lambda>item. item_product_id item = productId) (cart_items (cart_of p)) \<noteq> None"
    by (simp add: find_product_None product_ids_def)
  with assms have "updateCartQuantity e productId quantity s = removeFromCart e productId s"
    by (auto simp add: updateCartQuantity_def)
  with assms(1) show "\<exists>p'. currentProfile (updateCartQuantity e productId quantity s) = Some p' \<and>
           productId \<notin> set (product_ids p')"
    by (auto simp add: removeFromCart_def updateCartTotal_def product_ids_def Let_def
        split: option.splits)
qed
theorem addToCart_unvalidated_quantity_witness:
  "currentProfile demo_state = Some demo_guest \<and>
   (- 1 :: rat) \<le> 0 \<and>
   ''sku-1'' \<notin> set (product_ids demo_guest) \<and>
   (\<exists>p'. currentProfile (addToCart demo_env ''sku-1'' (- 1) demo_state) = Some p' \<and>
      cart_items (cart_of p') =
        [\<lparr>item_product_id = ''sku-1'', item_quantity = - 1,
          item_added_at = now demo_env, item_updated_at = now demo_env\<rparr>]) \<and>
   currentProfile stale_state = Some stale_profile \<and>
   ''sku-1'' \<in> set (product_ids stale_profile) \<and>
   (\<exists>p'. currentProfile (addToCart demo_env ''sku-1'' (- 3) stale_state) = Some p' \<and>
      length (cart_items (cart_of p')) = 1 \<and>
      find (\<lambda>item. item_product_id item = ''sku-1'') (cart_items (cart_of p')) =
        Some ((demo_line ''sku-1'' 2)\<lparr>item_quantity := - 1, item_updated_at := now demo_env\<rparr>)) \<and>
   (\<exists>p'. currentProfile (updateCartQuantity demo_env ''sku-1'' (- 3) stale_state) = Some p' \<and>
      ''sku-1'' \<notin> set (product_ids p'))"
proof -
  have h1: "currentProfile demo_state = Some demo_guest" by (simp add: demo_state_def)
  have h2: "currentProfile stale_state = Some stale_profile" by (simp add: stale_state_def)
  have neg1: "(- 1 :: rat) \<le> 0" and neg3: "(- 3 :: rat) \<le> 0" by simp_all
  have absent: "''sku-1'' \<notin> set (product_ids demo_guest)" by (simp add: demo_guest_product_ids)
  have present: "''sku-1'' \<in> set (product_ids stale_profile)" by (simp add: stale_profile_simps)
  have found: "find (\<lambda>item. item_product_id item = ''sku-1'') (cart_items (cart_of stale_profile))
     = Some (demo_line ''sku-1'' 2)"
    by (simp add: stale_profile_simps demo_line_def)
  from addToCart_unvalidated_quantity [OF h1 neg1, of "''sku-1''" demo_env] absent
  have a: "\<exists>p'. currentProfile (addToCart demo_env ''sku-1'' (- 1) demo_state) = Some p' \<and>
      cart_items (cart_of p') = cart_items (cart_of demo_guest) @
        [\<lparr>item_product_id = ''sku-1'', item_quantity = - 1,
          item_added_at = now demo_env, item_updated_at = now demo_env\<rparr>]"
    by blast
  from addToCart_unvalidated_quantity [OF h2 neg3, of "''sku-1''" demo_env] found present
  have b: "\<exists>p'. currentProfile (addToCart demo_env ''sku-1'' (- 3) stale_state) = Some p' \<and>
      length (cart_items (cart_of p')) = length (cart_items (cart_of stale_profile)) \<and>
      find (\<lambda>item. item_product_id item = ''sku-1'') (cart_items (cart_of p')) =
        Some ((demo_line ''sku-1'' 2)\<lparr>item_quantity := item_quantity (demo_line ''sku-1'' 2) + - 3,
                                       item_updated_at := now demo_env\<rparr>)"
    and c: "\<exists>p'. currentProfile (updateCartQuantity demo_env ''sku-1'' (- 3) stale_state) = Some p' \<and>
      ''sku-1'' \<notin> set (product_ids p')"
    by blast+
  from h1 neg1 absent a h2 present b c show ?thesis
    by (simp add: demo_guest_simps stale_profile_simps demo_line_def)
qed

end
